theory Spec2Isabelle
  imports Main
begin

section \<open>Values, objects and widgets\<close>

text \<open>
  The module \<^verbatim>\<open>internal/HtmlModification.js\<close> keeps two module variables
  (\<^verbatim>\<open>defaultOptionGetter\<close>, \<^verbatim>\<open>rememberedOptions\<close>), reads and writes DOM elements and
  shares the objects of the loaded value map with its cache. The embedding therefore
  passes an explicit state: the two module variables, a store of JavaScript objects
  addressed by reference, a store of DOM elements, and the environment the module
  runs in.

  Conventions of the embedding:
  \<^item> an object is its table of own properties together with the list of its prototype
    ancestors; a read, the \<^verbatim>\<open>in\<close> test and an assignment go through the ancestors as
    the language says. All data properties are writable and all objects extensible.
    The only accessor is \<^verbatim>\<open>__proto__\<close> of \<^verbatim>\<open>Object.prototype\<close>;
  \<^item> the method \<^verbatim>\<open>hasOwnProperty\<close> is the built-in one: no object the module calls it
    on shadows it;
  \<^item> numbers are the integers up to \<open>2^53\<close> in size, and \<^verbatim>\<open>NaN\<close> is a value of its own.
    What \<^verbatim>\<open>Number\<close> gives for an object or for a text that is not a decimal integer
    literal is taken from the environment;
  \<^item> the selector of a group is evaluated here when the group id is a CSS identifier
    or such an identifier followed by the flag \<^verbatim>\<open>i\<close>; what the document answers to any
    other selector text is taken from the environment;
  \<^item> the slots \<^verbatim>\<open>value\<close>, \<^verbatim>\<open>checked\<close>, \<^verbatim>\<open>indeterminate\<close> and \<^verbatim>\<open>selectedElement\<close> of an
    element are plain properties, written and read as the module writes and reads them;
    the coercions a browser adds for particular host elements are not part of the module;
  \<^item> \<^verbatim>\<open>Logger.logInfo\<close> only logs and is left out;
  \<^item> a thrown exception is the result \<open>Inl\<close>; the state left behind by an aborted call is
    not tracked.
\<close>

type_synonym addr = nat
type_synonym elemid = nat

datatype jsval = Undefined | Null | Bool bool | Num int | NaN | Str string | Ref addr

datatype error = TypeError | SyntaxError | ConfigurationError | SelectionError

type_synonym object = "string \<rightharpoonup> jsval"

text \<open>
  An element: its attributes, the four property slots the module touches, and the
  answer to \<^verbatim>\<open>getElementsByTagName("input")\<close> (the descendant input elements in tree
  order). \<open>selectedElement = None\<close> is \<^verbatim>\<open>undefined\<close>.
\<close>

record element =
  attrs :: "string \<rightharpoonup> string"
  val :: jsval
  checked :: jsval
  indeterminate :: jsval
  selectedElement :: "elemid option"
  inputs :: "elemid list"

text \<open>
  \<^verbatim>\<open>defaultOptionGetter\<close> is \<^verbatim>\<open>undefined\<close> (never set, or unset), \<^verbatim>\<open>null\<close> (defaults
  switched off) or a callback from one id to a value.
\<close>

datatype provider = Unset | Disabled | Provider "string \<Rightarrow> jsval"

text \<open>
  The environment. \<open>chain v\<close> lists the prototype ancestors of the value \<open>v\<close>, nearest
  first (for a primitive, those of its wrapper object); \<open>objectPrototype\<close> is the
  address of \<^verbatim>\<open>Object.prototype\<close>, the prototype of every object written as a literal;
  \<open>otherSelectors\<close> is the document's answer to a selector text that is not evaluated
  here, \<open>otherNumbers\<close> the result of \<^verbatim>\<open>Number\<close> where it is not computed here.
\<close>

record environment =
  chain :: "jsval \<Rightarrow> addr list"
  objectPrototype :: addr
  otherSelectors :: "string \<Rightarrow> error + elemid list"
  otherNumbers :: "jsval \<Rightarrow> jsval"

text \<open>
  \<open>rememberedOptions = None\<close> is the module variable before the first reset
  (\<^verbatim>\<open>undefined\<close>); afterwards it is the table of own properties of the cache object,
  and \<open>rememberedChain\<close> lists that object's prototype ancestors. \<open>fresh\<close> is the next
  unused reference; \<open>document\<close> lists the elements of the document in tree order.
\<close>

record state =
  defaultOptionGetter :: provider
  rememberedOptions :: "object option"
  rememberedChain :: "addr list"
  heap :: "addr \<Rightarrow> object"
  fresh :: addr
  elems :: "elemid \<Rightarrow> element"
  document :: "elemid list"
  env :: environment

subsection \<open>Language primitives\<close>

text \<open>\<^verbatim>\<open>a === b\<close>.\<close>

definition strict_eq :: "jsval \<Rightarrow> jsval \<Rightarrow> bool" where
  "strict_eq a b = (a = b \<and> a \<noteq> NaN)"

definition is_digit :: "char \<Rightarrow> bool" where
  "is_digit c = (let n = (of_char c :: nat) in 48 \<le> n \<and> n \<le> 57)"

fun digits_value :: "nat \<Rightarrow> string \<Rightarrow> nat option" where
  "digits_value acc [] = Some acc"
| "digits_value acc (c # cs) =
     (if is_digit c then digits_value (10 * acc + (of_char c - 48)) cs else None)"

definition unsigned_literal :: "string \<Rightarrow> nat option" where
  "unsigned_literal ds = (if ds = [] then None else digits_value 0 ds)"

text \<open>An array index written canonically: \<^verbatim>\<open>"0"\<close>, \<^verbatim>\<open>"17"\<close>, not \<^verbatim>\<open>"017"\<close>.\<close>

definition index_key :: "string \<Rightarrow> nat option" where
  "index_key k =
     (case k of
        [] \<Rightarrow> None
      | c # cs \<Rightarrow> if c = CHR ''0'' \<and> cs \<noteq> [] then None else digits_value 0 k)"

text \<open>The own properties of a string primitive: its length and its characters.\<close>

definition str_own_prop :: "string \<Rightarrow> string \<Rightarrow> jsval option" where
  "str_own_prop t k =
     (if k = ''length'' then Some (Num (int (length t)))
      else case index_key k of
             None \<Rightarrow> None
           | Some i \<Rightarrow> if i < length t then Some (Str [t ! i]) else None)"

text \<open>
  What a search for a property finds: a data property with its value, the accessor
  \<^verbatim>\<open>__proto__\<close>, or nothing. \<open>ownFind\<close> looks at one object, \<open>findIn\<close> along a list of
  objects, \<open>ownProp\<close> at a value itself and \<open>lookup\<close> at a value and then its
  ancestors.
\<close>

datatype found = Data jsval | ProtoAccessor | Missing

definition ownFind :: "state \<Rightarrow> addr \<Rightarrow> string \<Rightarrow> found" where
  "ownFind s a k =
     (case heap s a k of
        Some v \<Rightarrow> Data v
      | None \<Rightarrow>
          if a = objectPrototype (env s) \<and> k = ''__proto__'' then ProtoAccessor else Missing)"

fun findIn :: "state \<Rightarrow> addr list \<Rightarrow> string \<Rightarrow> found" where
  "findIn s [] k = Missing"
| "findIn s (a # as) k =
     (case ownFind s a k of
        Missing \<Rightarrow> findIn s as k
      | Data v \<Rightarrow> Data v
      | ProtoAccessor \<Rightarrow> ProtoAccessor)"

fun ownProp :: "state \<Rightarrow> jsval \<Rightarrow> string \<Rightarrow> found" where
  "ownProp s (Ref a) k = ownFind s a k"
| "ownProp s (Str t) k = (case str_own_prop t k of None \<Rightarrow> Missing | Some v \<Rightarrow> Data v)"
| "ownProp s v k = Missing"

definition lookup :: "state \<Rightarrow> jsval \<Rightarrow> string \<Rightarrow> found" where
  "lookup s v k =
     (case ownProp s v k of
        Missing \<Rightarrow> findIn s (chain (env s) v) k
      | Data x \<Rightarrow> Data x
      | ProtoAccessor \<Rightarrow> ProtoAccessor)"

text \<open>What the getter of \<^verbatim>\<open>__proto__\<close> returns: the nearest ancestor, or \<^verbatim>\<open>null\<close>.\<close>

definition nearest :: "addr list \<Rightarrow> jsval" where
  "nearest as = (case as of [] \<Rightarrow> Null | p # ps \<Rightarrow> Ref p)"

text \<open>\<^verbatim>\<open>v.hasOwnProperty(k)\<close>.\<close>

fun hasOwnProperty :: "state \<Rightarrow> jsval \<Rightarrow> string \<Rightarrow> error + bool" where
  "hasOwnProperty s Undefined k = Inl TypeError"
| "hasOwnProperty s Null k = Inl TypeError"
| "hasOwnProperty s v k = Inr (ownProp s v k \<noteq> Missing)"

text \<open>\<^verbatim>\<open>v[k]\<close>, read.\<close>

fun getProp :: "state \<Rightarrow> jsval \<Rightarrow> string \<Rightarrow> error + jsval" where
  "getProp s Undefined k = Inl TypeError"
| "getProp s Null k = Inl TypeError"
| "getProp s v k =
     Inr (case lookup s v k of
            Data x \<Rightarrow> x
          | ProtoAccessor \<Rightarrow> nearest (chain (env s) v)
          | Missing \<Rightarrow> Undefined)"

text \<open>
  The setter of \<^verbatim>\<open>__proto__\<close>, called on the object \<open>a\<close>. An object or \<^verbatim>\<open>null\<close> becomes
  the prototype of \<open>a\<close>, unless it is the one \<open>a\<close> has already; that throws when \<open>a\<close>
  is \<^verbatim>\<open>Object.prototype\<close> (whose prototype cannot change) or when \<open>a\<close> would become its
  own ancestor. Any other value is ignored. \<open>relinked\<close> gives the ancestors of an
  object below \<open>a\<close> after the change.
\<close>

definition relinked :: "addr \<Rightarrow> addr list \<Rightarrow> addr list \<Rightarrow> addr list" where
  "relinked a new old =
     (if a \<in> set old then takeWhile (\<lambda>b. b \<noteq> a) old @ a # new else old)"

definition link :: "addr \<Rightarrow> addr list \<Rightarrow> state \<Rightarrow> error + state" where
  "link a new s =
     (if chain (env s) (Ref a) = new then Inr s
      else if a = objectPrototype (env s) \<or> a \<in> set new then Inl TypeError
      else Inr (s\<lparr>rememberedChain := relinked a new (rememberedChain s),
                  env := (env s)\<lparr>chain := (\<lambda>v. if v = Ref a then new
                                                 else relinked a new (chain (env s) v))\<rparr>\<rparr>))"

fun protoSetter :: "addr \<Rightarrow> jsval \<Rightarrow> state \<Rightarrow> error + state" where
  "protoSetter a (Ref q) s = link a (q # chain (env s) (Ref q)) s"
| "protoSetter a Null s = link a [] s"
| "protoSetter a x s = Inr s"

text \<open>
  \<^verbatim>\<open>v[k] = x\<close>. On an object: an own property is overwritten; otherwise the setter of
  \<^verbatim>\<open>__proto__\<close> runs if that is what the search finds, and else the object gets a new
  own property. The file is an ECMAScript module, hence strict code: on a primitive
  the assignment throws unless the search finds the setter, which then ignores the
  call; on \<^verbatim>\<open>undefined\<close> and \<^verbatim>\<open>null\<close> it throws.
\<close>

definition writeOwn :: "addr \<Rightarrow> string \<Rightarrow> jsval \<Rightarrow> state \<Rightarrow> state" where
  "writeOwn a k x s = s\<lparr>heap := (heap s)(a := (heap s a)(k \<mapsto> x))\<rparr>"

fun setProp :: "jsval \<Rightarrow> string \<Rightarrow> jsval \<Rightarrow> state \<Rightarrow> error + state" where
  "setProp (Ref a) k x s =
     (case heap s a k of
        Some old \<Rightarrow> Inr (writeOwn a k x s)
      | None \<Rightarrow>
          (case lookup s (Ref a) k of
             ProtoAccessor \<Rightarrow> protoSetter a x s
           | Data inherited \<Rightarrow> Inr (writeOwn a k x s)
           | Missing \<Rightarrow> Inr (writeOwn a k x s)))"
| "setProp Undefined k x s = Inl TypeError"
| "setProp Null k x s = Inl TypeError"
| "setProp v k x s = (if lookup s v k = ProtoAccessor then Inr s else Inl TypeError)"

text \<open>The key a group id (a string or \<^verbatim>\<open>null\<close>) and an option id (a string or
  \<^verbatim>\<open>undefined\<close>) turn into when used as a property name.\<close>

definition groupKey :: "string option \<Rightarrow> string" where
  "groupKey g = (case g of None \<Rightarrow> ''null'' | Some n \<Rightarrow> n)"

definition idKey :: "string option \<Rightarrow> string" where
  "idKey i = (case i of None \<Rightarrow> ''undefined'' | Some n \<Rightarrow> n)"

text \<open>
  \<^verbatim>\<open>Number(v)\<close>. A text is computed here when, white space around it dropped, it is
  empty (the number 0) or an optionally signed run of decimal digits whose value is at
  most \<open>2^53\<close> and that does not denote the negative zero. For every other text and
  for an object the result is the environment's.
\<close>

definition is_space :: "char \<Rightarrow> bool" where
  "is_space c = (let n = (of_char c :: nat) in n = 32 \<or> (9 \<le> n \<and> n \<le> 13))"

definition trim :: "string \<Rightarrow> string" where
  "trim t = rev (dropWhile is_space (rev (dropWhile is_space t)))"

definition safe_integer :: "nat \<Rightarrow> bool" where
  "safe_integer n = (n \<le> 9007199254740992)"

definition integerLiteral :: "string \<Rightarrow> int option" where
  "integerLiteral t =
     (case trim t of
        [] \<Rightarrow> Some 0
      | c # cs \<Rightarrow>
          if c = CHR ''-'' then
            (case unsigned_literal cs of
               None \<Rightarrow> None
             | Some n \<Rightarrow> if 0 < n \<and> safe_integer n then Some (- int n) else None)
          else if c = CHR ''+'' then
            (case unsigned_literal cs of
               None \<Rightarrow> None
             | Some n \<Rightarrow> if safe_integer n then Some (int n) else None)
          else
            (case unsigned_literal (c # cs) of
               None \<Rightarrow> None
             | Some n \<Rightarrow> if safe_integer n then Some (int n) else None))"

definition stringToNumber :: "state \<Rightarrow> string \<Rightarrow> jsval" where
  "stringToNumber s t =
     (case integerLiteral t of
        Some n \<Rightarrow> Num n
      | None \<Rightarrow> otherNumbers (env s) (Str t))"

fun Number :: "state \<Rightarrow> jsval \<Rightarrow> jsval" where
  "Number s Undefined = NaN"
| "Number s Null = Num 0"
| "Number s (Bool b) = Num (if b then 1 else 0)"
| "Number s (Num n) = Num n"
| "Number s NaN = NaN"
| "Number s (Str t) = stringToNumber s t"
| "Number s (Ref a) = otherNumbers (env s) (Ref a)"

subsection \<open>DOM primitives\<close>

text \<open>\<^verbatim>\<open>el.getAttribute(k)\<close>: the attribute's text, or \<^verbatim>\<open>null\<close>.\<close>

definition getAttribute :: "element \<Rightarrow> string \<Rightarrow> jsval" where
  "getAttribute e k = (case attrs e k of None \<Rightarrow> Null | Some t \<Rightarrow> Str t)"

definition hasAttribute :: "element \<Rightarrow> string \<Rightarrow> bool" where
  "hasAttribute e k = (attrs e k \<noteq> None)"

definition setAttribute :: "string \<Rightarrow> string \<Rightarrow> element \<Rightarrow> element" where
  "setAttribute k t e = e\<lparr>attrs := (attrs e)(k \<mapsto> t)\<rparr>"

text \<open>\<^verbatim>\<open>el.dataset[k]\<close>: the attribute \<^verbatim>\<open>data-k\<close>, or \<^verbatim>\<open>undefined\<close>.\<close>

definition dataset :: "element \<Rightarrow> string \<Rightarrow> string option" where
  "dataset e k = attrs e (''data-'' @ k)"

text \<open>
  \<^verbatim>\<open>el.getAttribute("type") || el.getAttribute("data-type")\<close>: the first attribute
  unless it is missing or empty.
\<close>

definition declaredType :: "element \<Rightarrow> jsval" where
  "declaredType e =
     (case attrs e ''type'' of
        None \<Rightarrow> getAttribute e ''data-type''
      | Some t \<Rightarrow> if t = [] then getAttribute e ''data-type'' else Str t)"

text \<open>
  The attribute selector the module builds is \<^verbatim>\<open>[data-optiongroup=G]\<close> with \<open>G\<close>
  unquoted. When \<open>G\<close> is a CSS identifier (\<open>css_ident\<close>, identifiers without escapes)
  the selector matches the elements whose attribute is \<open>G\<close>. When \<open>G\<close> is such an
  identifier, white space and the letter \<^verbatim>\<open>i\<close>, the letter is the selector's flag for
  comparing without regard to the case of ASCII letters, and the selector matches the
  elements whose attribute is the identifier in any case. For every other \<open>G\<close> the
  document's answer (a syntax error for most texts) is the environment's.
\<close>

definition name_start_char :: "char \<Rightarrow> bool" where
  "name_start_char c =
     (let n = (of_char c :: nat)
      in (65 \<le> n \<and> n \<le> 90) \<or> (97 \<le> n \<and> n \<le> 122) \<or> n = 95 \<or> 128 \<le> n)"

definition name_char :: "char \<Rightarrow> bool" where
  "name_char c = (name_start_char c \<or> is_digit c \<or> c = CHR ''-'')"

fun css_ident :: "string \<Rightarrow> bool" where
  "css_ident [] = False"
| "css_ident (c # cs) =
     (if c = CHR ''-'' then
        (case cs of
           [] \<Rightarrow> False
         | d # ds \<Rightarrow> (d = CHR ''-'' \<or> name_start_char d) \<and> list_all name_char ds)
      else name_start_char c \<and> list_all name_char cs)"

definition css_space :: "char \<Rightarrow> bool" where
  "css_space c = (let n = (of_char c :: nat) in n = 32 \<or> n = 9 \<or> n = 10 \<or> n = 12 \<or> n = 13)"

definition flaggedIdent :: "string \<Rightarrow> string option" where
  "flaggedIdent g =
     (let q = takeWhile (\<lambda>c. \<not> css_space c) g;
          flag = dropWhile css_space (rev (dropWhile css_space (rev (drop (length q) g))))
      in if css_ident q \<and> (flag = ''i'' \<or> flag = ''I'') then Some q else None)"

definition lower :: "char \<Rightarrow> char" where
  "lower c =
     (let n = (of_char c :: nat) in if 65 \<le> n \<and> n \<le> 90 then char_of (n + 32) else c)"

definition groupMembers :: "string \<Rightarrow> state \<Rightarrow> elemid list" where
  "groupMembers g s =
     filter (\<lambda>i. attrs (elems s i) ''data-optiongroup'' = Some g) (document s)"

definition groupMembersAnyCase :: "string \<Rightarrow> state \<Rightarrow> elemid list" where
  "groupMembersAnyCase g s =
     filter (\<lambda>i. map_option (map lower) (attrs (elems s i) ''data-optiongroup'') =
                 Some (map lower g))
            (document s)"

definition querySelectorAll_optiongroup :: "string \<Rightarrow> state \<Rightarrow> error + elemid list" where
  "querySelectorAll_optiongroup g s =
     (if css_ident g then Inr (groupMembers g s)
      else case flaggedIdent g of
             Some q \<Rightarrow> Inr (groupMembersAnyCase q s)
           | None \<Rightarrow> otherSelectors (env s) (''[data-optiongroup='' @ g @ '']''))"

section \<open>The module\<close>

definition resetRememberedOptions :: "state \<Rightarrow> state" where
  "resetRememberedOptions s =
     s\<lparr>rememberedOptions := Some Map.empty,
       rememberedChain := [objectPrototype (env s)]\<rparr>"

definition setDefaultOptionProvider :: "provider \<Rightarrow> state \<Rightarrow> state" where
  "setDefaultOptionProvider defaultOptionCallback s =
     s\<lparr>defaultOptionGetter := defaultOptionCallback\<rparr>"

definition isReady :: "state \<Rightarrow> error + bool" where
  "isReady s =
     (case defaultOptionGetter s of
        Unset \<Rightarrow> Inl ConfigurationError
      | Disabled \<Rightarrow> Inr True
      | Provider f \<Rightarrow> Inr True)"

text \<open>
  The state of a freshly loaded module over a given page and object store, in a given
  environment.
\<close>

definition moduleLoaded ::
  "(addr \<Rightarrow> object) \<Rightarrow> addr \<Rightarrow> (elemid \<Rightarrow> element) \<Rightarrow> elemid list \<Rightarrow> environment \<Rightarrow> state" where
  "moduleLoaded h n es d w =
     \<lparr>defaultOptionGetter = Unset, rememberedOptions = None, rememberedChain = [],
      heap = h, fresh = n, elems = es, document = d, env = w\<rparr>"

subsection \<open>Apply\<close>

text \<open>
  The loop over the radio children in the \<^verbatim>\<open>"radiogroup"\<close> case, and the test in its
  body.
\<close>

definition matchingRadio :: "jsval \<Rightarrow> element \<Rightarrow> bool" where
  "matchingRadio optionValue radioElement =
     (strict_eq (getAttribute radioElement ''type'') (Str ''radio'') \<and>
      strict_eq (getAttribute radioElement ''value'') optionValue)"

fun markRadios :: "jsval \<Rightarrow> elemid list \<Rightarrow> (elemid \<Rightarrow> element) \<Rightarrow> (elemid \<Rightarrow> element)" where
  "markRadios optionValue [] es = es"
| "markRadios optionValue (r # rs) es =
     markRadios optionValue rs
       (if matchingRadio optionValue (es r)
        then es(r := setAttribute ''checked'' [] (es r))
        else es)"

text \<open>The \<^verbatim>\<open>switch\<close> that ends \<^verbatim>\<open>applyOptionToElement\<close>.\<close>

definition writeOptionValue :: "elemid \<Rightarrow> jsval \<Rightarrow> state \<Rightarrow> state" where
  "writeOptionValue elOption optionValue s =
     (let e = elems s elOption; t = declaredType e in
      if strict_eq t (Str ''checkbox'') then
        (if strict_eq optionValue Null
         then s\<lparr>elems := (elems s)(elOption := e\<lparr>indeterminate := Bool True\<rparr>)\<rparr>
         else s\<lparr>elems := (elems s)(elOption := e\<lparr>checked := Bool (strict_eq optionValue (Bool True))\<rparr>)\<rparr>)
      else if strict_eq t (Str ''radiogroup'') then
        s\<lparr>elems := markRadios optionValue (inputs e) (elems s)\<rparr>
      else
        s\<lparr>elems := (elems s)(elOption := e\<lparr>val := optionValue\<rparr>)\<rparr>)"

text \<open>
  The first half of \<^verbatim>\<open>applyOptionToElement\<close>, in three parts: the test that opens it
  (\<open>valuePresent\<close>), the lookup of the default in its first branch (\<open>defaultValue\<close>), and
  the lookup of the stored value in its second branch, which also fills the cache
  (\<open>storedValue\<close>).
\<close>

definition defaultValue :: "string \<Rightarrow> string option \<Rightarrow> state \<Rightarrow> error + jsval" where
  "defaultValue option optionGroup s =
     (case defaultOptionGetter s of
        Disabled \<Rightarrow> Inr Undefined
      | Unset \<Rightarrow> Inl TypeError
      | Provider f \<Rightarrow>
          (case optionGroup of
             None \<Rightarrow> Inr (f option)
           | Some g \<Rightarrow> getProp s (f g) option))"

text \<open>
  \<^verbatim>\<open>if (!rememberedOptions.hasOwnProperty(optionGroup)) rememberedOptions[optionGroup] =
  allOptionsInGroup\<close>. The assignment makes an own property of the cache object, unless
  the group id is \<^verbatim>\<open>__proto__\<close> as the cache object inherits it: then the setter makes
  the group's map the prototype of the cache object, or ignores a value that is no
  object.
\<close>

definition rememberGroup :: "string \<Rightarrow> jsval \<Rightarrow> state \<Rightarrow> error + state" where
  "rememberGroup g allOptionsInGroup s =
     (case rememberedOptions s of
        None \<Rightarrow> Inl TypeError
      | Some remembered \<Rightarrow>
          if remembered g \<noteq> None then Inr s
          else
            (case findIn s (rememberedChain s) g of
               ProtoAccessor \<Rightarrow>
                 Inr (case allOptionsInGroup of
                        Ref q \<Rightarrow> s\<lparr>rememberedChain := q # chain (env s) (Ref q)\<rparr>
                      | Null \<Rightarrow> s\<lparr>rememberedChain := []\<rparr>
                      | _ \<Rightarrow> s)
             | Data inherited \<Rightarrow>
                 Inr (s\<lparr>rememberedOptions := Some (remembered(g \<mapsto> allOptionsInGroup))\<rparr>)
             | Missing \<Rightarrow>
                 Inr (s\<lparr>rememberedOptions := Some (remembered(g \<mapsto> allOptionsInGroup))\<rparr>)))"

definition storedValue :: "string \<Rightarrow> string option \<Rightarrow> jsval \<Rightarrow> state \<Rightarrow> error + jsval \<times> state" where
  "storedValue option optionGroup optionValues s =
     (case optionGroup of
        None \<Rightarrow>
          (case getProp s optionValues option of
             Inl err \<Rightarrow> Inl err
           | Inr optionValue \<Rightarrow> Inr (optionValue, s))
      | Some g \<Rightarrow>
          (case getProp s optionValues g of
             Inl err \<Rightarrow> Inl err
           | Inr allOptionsInGroup \<Rightarrow>
               (case getProp s allOptionsInGroup option of
                  Inl err \<Rightarrow> Inl err
                | Inr optionValue \<Rightarrow>
                    (case rememberGroup g allOptionsInGroup s of
                       Inl err \<Rightarrow> Inl err
                     | Inr s' \<Rightarrow> Inr (optionValue, s')))))"

definition valuePresent :: "string \<Rightarrow> string option \<Rightarrow> jsval \<Rightarrow> state \<Rightarrow> error + bool" where
  "valuePresent option optionGroup optionValues s =
     (case hasOwnProperty s optionValues option of
        Inl err \<Rightarrow> Inl err
      | Inr True \<Rightarrow> Inr True
      | Inr False \<Rightarrow> hasOwnProperty s optionValues (groupKey optionGroup))"

definition applyOptionToElement ::
  "string \<Rightarrow> string option \<Rightarrow> elemid \<Rightarrow> jsval \<Rightarrow> state \<Rightarrow> error + state" where
  "applyOptionToElement option optionGroup elOption optionValues s =
     (case valuePresent option optionGroup optionValues s of
        Inl err \<Rightarrow> Inl err
      | Inr False \<Rightarrow>
          (case defaultValue option optionGroup s of
             Inl err \<Rightarrow> Inl err
           | Inr optionValue \<Rightarrow>
               if strict_eq optionValue Undefined then Inr s
               else Inr (writeOptionValue elOption optionValue s))
      | Inr True \<Rightarrow>
          (case storedValue option optionGroup optionValues s of
             Inl err \<Rightarrow> Inl err
           | Inr (optionValue, s') \<Rightarrow> Inr (writeOptionValue elOption optionValue s')))"

subsection \<open>Extract\<close>

text \<open>The scan of \<^verbatim>\<open>getSelectedFromRadioGroup\<close> and the test in its body.\<close>

definition checkedRadio :: "element \<Rightarrow> bool" where
  "checkedRadio radioElement =
     (strict_eq (getAttribute radioElement ''type'') (Str ''radio'') \<and>
      hasAttribute radioElement ''checked'')"

fun firstCheckedRadio :: "(elemid \<Rightarrow> element) \<Rightarrow> elemid list \<Rightarrow> elemid option" where
  "firstCheckedRadio es [] = None"
| "firstCheckedRadio es (r # rs) =
     (if checkedRadio (es r) then Some r else firstCheckedRadio es rs)"

definition getSelectedFromRadioGroup :: "state \<Rightarrow> elemid \<Rightarrow> error + elemid" where
  "getSelectedFromRadioGroup s elOption =
     (case selectedElement (elems s elOption) of
        Some sel \<Rightarrow> Inr sel
      | None \<Rightarrow>
          (case firstCheckedRadio (elems s) (inputs (elems s elOption)) of
             Some radioElement \<Rightarrow> Inr radioElement
           | None \<Rightarrow> Inl SelectionError))"

text \<open>\<^verbatim>\<open>el.getAttribute("name") || el.dataset.name\<close>; \<open>None\<close> is \<^verbatim>\<open>undefined\<close>.\<close>

definition getOptionIdFromElement :: "element \<Rightarrow> string option" where
  "getOptionIdFromElement e =
     (case attrs e ''name'' of
        None \<Rightarrow> dataset e ''name''
      | Some n \<Rightarrow> if n = [] then dataset e ''name'' else Some n)"

definition getIdAndOptionFromElement :: "state \<Rightarrow> elemid \<Rightarrow> error + string option \<times> jsval" where
  "getIdAndOptionFromElement s elOption =
     (let e = elems s elOption; t = declaredType e in
      case
        (if strict_eq t (Str ''checkbox'') then
           (if strict_eq (indeterminate e) (Bool True) then Inr (None, Null)
            else Inr (None, checked e))
         else if strict_eq t (Str ''radiogroup'') then
           (case getSelectedFromRadioGroup s elOption of
              Inl err \<Rightarrow> Inl err
            | Inr elSelected \<Rightarrow>
                Inr (getOptionIdFromElement (elems s elSelected), val (elems s elSelected)))
         else if strict_eq t (Str ''number'') then Inr (None, Number s (val e))
         else if strict_eq t (Str ''range'') then Inr (None, Number s (val e))
         else Inr (None, val e))
      of
        Inl err \<Rightarrow> Inl err
      | Inr (optionId, optionValue) \<Rightarrow>
          Inr (if optionId = None then getOptionIdFromElement e else optionId, optionValue))"

text \<open>The body of the \<^verbatim>\<open>forEach\<close> over the members of a group, in document order.\<close>

fun scanGroup :: "jsval \<Rightarrow> elemid list \<Rightarrow> state \<Rightarrow> error + state" where
  "scanGroup optionValue [] s = Inr s"
| "scanGroup optionValue (elCurrentOption # rest) s =
     (case getIdAndOptionFromElement s elCurrentOption of
        Inl err \<Rightarrow> Inl err
      | Inr (currentOption, currentOptionValue) \<Rightarrow>
          (case setProp optionValue (idKey currentOption) currentOptionValue s of
             Inl err \<Rightarrow> Inl err
           | Inr s' \<Rightarrow> scanGroup optionValue rest s'))"

text \<open>
  The state after evaluating \<^verbatim>\<open>{}\<close>. The new object is \<open>Ref (fresh s)\<close>; its only
  ancestor is \<^verbatim>\<open>Object.prototype\<close>, which has no prototype itself.
\<close>

definition newObject :: "state \<Rightarrow> state" where
  "newObject s =
     s\<lparr>heap := (heap s)(fresh s := Map.empty), fresh := Suc (fresh s),
       env := (env s)\<lparr>chain := (chain (env s))(Ref (fresh s) := [objectPrototype (env s)])\<rparr>\<rparr>"

text \<open>
  \<^verbatim>\<open>optionGroup in rememberedOptions\<close> and \<^verbatim>\<open>rememberedOptions[optionGroup]\<close>: the search
  of the cache object, own properties first.
\<close>

definition rememberedFind :: "state \<Rightarrow> object \<Rightarrow> string \<Rightarrow> found" where
  "rememberedFind s remembered g =
     (case remembered g of
        Some v \<Rightarrow> Data v
      | None \<Rightarrow> findIn s (rememberedChain s) g)"

definition getIdAndOptionsFromElement ::
  "elemid \<Rightarrow> bool \<Rightarrow> state \<Rightarrow> error + (string option \<times> jsval) \<times> state" where
  "getIdAndOptionsFromElement elOption useDatagroup s =
     (case (if useDatagroup then dataset (elems s elOption) ''optiongroup'' else None) of
        Some optionGroup \<Rightarrow>
          (case rememberedOptions s of
             None \<Rightarrow> Inl TypeError
           | Some remembered \<Rightarrow>
               (let (optionValue, s1) =
                      (case rememberedFind s remembered optionGroup of
                         Data cached \<Rightarrow> (cached, s)
                       | ProtoAccessor \<Rightarrow> (nearest (rememberedChain s), s)
                       | Missing \<Rightarrow> (Ref (fresh s), newObject s))
                in case querySelectorAll_optiongroup optionGroup s1 of
                     Inl err \<Rightarrow> Inl err
                   | Inr members \<Rightarrow>
                       (case scanGroup optionValue members s1 of
                          Inl err \<Rightarrow> Inl err
                        | Inr s2 \<Rightarrow> Inr ((Some optionGroup, optionValue), s2))))
      | None \<Rightarrow>
          (case getIdAndOptionFromElement s elOption of
             Inl err \<Rightarrow> Inl err
           | Inr r \<Rightarrow> Inr (r, s)))"

section \<open>Group extraction in the words of the specification\<close>

text \<open>
  The specification describes group extraction in four steps: seed the aggregate from
  the cache entry of the group if there is one, otherwise from an empty map; enumerate
  every widget in scope with the group id; single-extract each and write its id/value
  pair into the aggregate; return the group id with the aggregate. The definitions
  below say this on maps, without the object store: \<open>seed_spec\<close> is the seed,
  \<open>aggregate_spec\<close> the aggregate after the writes (or the error of the first member
  whose extraction fails), \<open>aggregate_ref\<close> the object that is handed back, and
  \<open>memberKeys\<close> the keys the members write.
\<close>

fun aggregate_spec :: "state \<Rightarrow> elemid list \<Rightarrow> object \<Rightarrow> error + object" where
  "aggregate_spec s [] agg = Inr agg"
| "aggregate_spec s (w # ws) agg =
     (case getIdAndOptionFromElement s w of
        Inl err \<Rightarrow> Inl err
      | Inr (i, v) \<Rightarrow> aggregate_spec s ws (agg(idKey i \<mapsto> v)))"

definition seed_spec :: "state \<Rightarrow> object \<Rightarrow> string \<Rightarrow> object" where
  "seed_spec s remembered g =
     (case remembered g of
        None \<Rightarrow> Map.empty
      | Some c \<Rightarrow> (case c of Ref a \<Rightarrow> heap s a | _ \<Rightarrow> Map.empty))"

definition aggregate_ref :: "state \<Rightarrow> object \<Rightarrow> string \<Rightarrow> jsval" where
  "aggregate_ref s remembered g =
     (case remembered g of None \<Rightarrow> Ref (fresh s) | Some c \<Rightarrow> c)"

definition memberKeys :: "state \<Rightarrow> elemid list \<Rightarrow> string list" where
  "memberKeys s ws =
     concat (map (\<lambda>w. case getIdAndOptionFromElement s w of
                         Inl err \<Rightarrow> []
                       | Inr (i, v) \<Rightarrow> [idKey i]) ws)"

section \<open>A sample options page\<close>

text \<open>
  A page in the style of the add-on's options page: a toggle (element 0), an
  exclusive-choice group (the wrapper 1, named \<open>sizeChoice\<close>, with the radio buttons 2
  and 3, both named \<open>sizeType\<close>) and a numeric field (4), the wrapper and the field
  being members of the option group \<open>qrCodeSize\<close>, a text field (5), and a second
  exclusive-choice group (the wrapper 6, named \<open>theme\<close>) whose only radio button (7)
  carries no name of its own and is selected in the markup. Four more text fields
  declare the option groups \<open>toString\<close> (8), \<open>q i\<close> (9), \<open>q\<close> (10) and \<open>p\<close> (11);
  the last one is named \<^verbatim>\<open>__proto__\<close>.
\<close>

definition blank :: element where
  "blank = \<lparr>attrs = Map.empty, val = Undefined, checked = Undefined,
            indeterminate = Undefined, selectedElement = None, inputs = []\<rparr>"

definition radio :: "string \<Rightarrow> string \<Rightarrow> element" where
  "radio n v = blank\<lparr>attrs := [''type'' \<mapsto> ''radio'', ''name'' \<mapsto> n, ''value'' \<mapsto> v],
                     val := Str v\<rparr>"

definition page :: "elemid \<Rightarrow> element" where
  "page = (\<lambda>_. blank)
     (0 := blank\<lparr>attrs := [''type'' \<mapsto> ''checkbox'', ''name'' \<mapsto> ''popupIconColored''],
                 checked := Bool False, indeterminate := Bool False\<rparr>,
      1 := blank\<lparr>attrs := [''data-type'' \<mapsto> ''radiogroup'', ''data-name'' \<mapsto> ''sizeChoice'',
                           ''data-optiongroup'' \<mapsto> ''qrCodeSize''],
                 inputs := [2, 3]\<rparr>,
      2 := radio ''sizeType'' ''auto'',
      3 := radio ''sizeType'' ''fixed'',
      4 := blank\<lparr>attrs := [''type'' \<mapsto> ''number'', ''name'' \<mapsto> ''size'',
                           ''data-optiongroup'' \<mapsto> ''qrCodeSize''],
                 val := Str ''150''\<rparr>,
      5 := blank\<lparr>attrs := [''type'' \<mapsto> ''text'', ''name'' \<mapsto> ''qrColor''], val := Str []\<rparr>,
      6 := blank\<lparr>attrs := [''data-type'' \<mapsto> ''radiogroup'', ''data-name'' \<mapsto> ''theme''],
                 inputs := [7]\<rparr>,
      7 := blank\<lparr>attrs := [''type'' \<mapsto> ''radio'', ''value'' \<mapsto> ''dark'', ''checked'' \<mapsto> []],
                 val := Str ''dark''\<rparr>,
      8 := blank\<lparr>attrs := [''type'' \<mapsto> ''text'', ''name'' \<mapsto> ''label'',
                           ''data-optiongroup'' \<mapsto> ''toString''],
                 val := Str ''QR''\<rparr>,
      9 := blank\<lparr>attrs := [''type'' \<mapsto> ''text'', ''name'' \<mapsto> ''first'',
                           ''data-optiongroup'' \<mapsto> ''q i''],
                 val := Str ''one''\<rparr>,
      10 := blank\<lparr>attrs := [''type'' \<mapsto> ''text'', ''name'' \<mapsto> ''second'',
                            ''data-optiongroup'' \<mapsto> ''q''],
                  val := Str ''two''\<rparr>,
      11 := blank\<lparr>attrs := [''type'' \<mapsto> ''text'', ''name'' \<mapsto> ''__proto__'',
                            ''data-optiongroup'' \<mapsto> ''p''],
                  val := Str ''three''\<rparr>)"

text \<open>
  The object store: 0 is a loaded value map, 1 the aggregate of the group
  \<open>qrCodeSize\<close> inside it (with a member \<open>margin\<close> that no widget shows), 2 the
  default aggregate of that group, 3 an empty loaded map, 4 a loaded map whose
  \<open>sizeType\<close> names no radio button. The rest is a cut of the standard built-in
  objects: 5 is \<^verbatim>\<open>Object.prototype\<close> with its members \<^verbatim>\<open>toString\<close> (7) and
  \<^verbatim>\<open>constructor\<close> (8), 6 is \<^verbatim>\<open>Function.prototype\<close>, and 9, 10 and 11 are the
  prototypes of the wrappers of strings, numbers and booleans.
\<close>

definition objects :: "addr \<Rightarrow> object" where
  "objects = (\<lambda>_. Map.empty)
     (0 := [''popupIconColored'' \<mapsto> Null, ''qrColor'' \<mapsto> Str ''#ffffff'',
            ''sizeType'' \<mapsto> Str ''fixed'', ''qrCodeSize'' \<mapsto> Ref 1],
      1 := [''sizeType'' \<mapsto> Str ''fixed'', ''size'' \<mapsto> Num 200, ''margin'' \<mapsto> Num 4],
      2 := [''sizeType'' \<mapsto> Str ''auto'', ''size'' \<mapsto> Num 200],
      4 := [''sizeType'' \<mapsto> Str ''huge'', ''popupIconColored'' \<mapsto> Bool True],
      5 := [''toString'' \<mapsto> Ref 7, ''constructor'' \<mapsto> Ref 8],
      6 := [''length'' \<mapsto> Num 0, ''name'' \<mapsto> Str []],
      7 := [''length'' \<mapsto> Num 0, ''name'' \<mapsto> Str ''toString''],
      8 := [''length'' \<mapsto> Num 1, ''name'' \<mapsto> Str ''Object'', ''prototype'' \<mapsto> Ref 5])"

text \<open>
  The environment of the session. The two answers it owes, to selector texts and to
  \<^verbatim>\<open>Number\<close>, are never asked for in what follows.
\<close>

definition ancestors :: "jsval \<Rightarrow> addr list" where
  "ancestors v =
     (case v of
        Undefined \<Rightarrow> []
      | Null \<Rightarrow> []
      | Bool b \<Rightarrow> [11, 5]
      | Num n \<Rightarrow> [10, 5]
      | NaN \<Rightarrow> [10, 5]
      | Str t \<Rightarrow> [9, 5]
      | Ref a \<Rightarrow> if a = 5 then [] else if a = 7 \<or> a = 8 then [6, 5] else [5])"

definition standard :: environment where
  "standard = \<lparr>chain = ancestors, objectPrototype = 5,
               otherSelectors = (\<lambda>t. Inl SyntaxError), otherNumbers = (\<lambda>v. NaN)\<rparr>"

definition defaults :: "string \<Rightarrow> jsval" where
  "defaults i =
     (if i = ''qrColor'' then Str ''#0c0c0d''
      else if i = ''qrCodeSize'' then Ref 2
      else if i = ''theme'' then Str ''light''
      else Undefined)"

definition session :: state where
  "session = \<lparr>defaultOptionGetter = Provider defaults, rememberedOptions = Some Map.empty,
              rememberedChain = [5], heap = objects, fresh = 12, elems = page,
              document = [0, 1, 2, 3, 4, 5, 6, 7, 8, 9, 10, 11], env = standard\<rparr>"

text \<open>The same session after the user has picked the radio button \<open>fixed\<close>.\<close>

definition picked :: state where
  "picked = session\<lparr>elems := page(3 := setAttribute ''checked'' [] (page 3))\<rparr>"

text \<open>
  More states of the session. \<open>sizeApplied\<close>: after the stored \<open>size\<close> of the group
  \<open>qrCodeSize\<close> has been applied to the numeric field. \<open>remembered\<close>: the user has
  picked \<open>fixed\<close> and the cache holds the aggregate of \<open>qrCodeSize\<close> that an earlier
  apply took from the loaded map (object 1). \<open>rescanned\<close>: after a group extraction in
  that state. \<open>scanned\<close>: after a group extraction with an empty cache.
  \<open>rescannedAfterReset\<close>: after a reset and one more group extraction.
  \<open>flagCached\<close>: the cache holds an entry (object 3) for the group \<open>q i\<close>.
  \<open>protoCached\<close>: the cache holds that entry for the group \<open>p\<close>.
\<close>

definition sizeApplied :: state where
  "sizeApplied = writeOptionValue 4 (Num 200)
               (session\<lparr>rememberedOptions := Some [''qrCodeSize'' \<mapsto> Ref 1]\<rparr>)"

definition remembered :: state where
  "remembered = picked\<lparr>rememberedOptions := Some [''qrCodeSize'' \<mapsto> Ref 1]\<rparr>"

definition rescanned :: state where
  "rescanned = remembered\<lparr>heap := (heap remembered)
     (1 := (heap remembered 1)(''sizeType'' \<mapsto> Str ''fixed'', ''size'' \<mapsto> Num 150))\<rparr>"

definition scanned :: state where
  "scanned = newObject picked\<lparr>heap := (heap (newObject picked))
     (12 := [''sizeType'' \<mapsto> Str ''fixed'', ''size'' \<mapsto> Num 150])\<rparr>"

definition rescannedAfterReset :: state where
  "rescannedAfterReset =
     newObject (resetRememberedOptions rescanned)\<lparr>heap :=
       (heap (newObject (resetRememberedOptions rescanned)))
         (12 := [''sizeType'' \<mapsto> Str ''fixed'', ''size'' \<mapsto> Num 150])\<rparr>"

definition flagCached :: state where
  "flagCached = session\<lparr>rememberedOptions := Some [''q i'' \<mapsto> Ref 3]\<rparr>"

definition protoCached :: state where
  "protoCached = session\<lparr>rememberedOptions := Some [''p'' \<mapsto> Ref 3]\<rparr>"

section \<open>Auxiliary facts\<close>

lemma strict_eq_const [simp]:
  "strict_eq a (Str t) = (a = Str t)"
  "strict_eq a Null = (a = Null)"
  "strict_eq a Undefined = (a = Undefined)"
  "strict_eq a (Bool b) = (a = Bool b)"
  by (auto simp add: strict_eq_def)

lemma strict_eq_getAttribute [simp]:
  "strict_eq (getAttribute e k) v = (getAttribute e k = v)"
  by (auto simp add: strict_eq_def getAttribute_def split: option.splits)

lemma findIn_no_accessor:
  "k \<noteq> ''__proto__'' \<Longrightarrow> findIn s as k \<noteq> ProtoAccessor"
  by (induction as) (auto simp add: ownFind_def split: option.splits found.splits)

lemma findIn_reads:
  assumes "heap s' = heap s" and "objectPrototype (env s') = objectPrototype (env s)"
  shows "findIn s' as k = findIn s as k"
proof -
  have "\<And>a. ownFind s' a k = ownFind s a k" unfolding ownFind_def assms ..
  then show ?thesis by (induction as) (simp_all split: found.splits)
qed

lemma lookup_no_accessor:
  "k \<noteq> ''__proto__'' \<Longrightarrow> lookup s v k \<noteq> ProtoAccessor"
  by (cases v)
     (auto simp add: lookup_def ownFind_def findIn_no_accessor
           split: option.splits found.splits)

lemma absent_reads_undefined:
  assumes "hasOwnProperty s v k = Inr False"
      and "findIn s (chain (env s) v) k = Missing"
  shows "getProp s v k = Inr Undefined"
  using assms by (cases v) (auto simp add: lookup_def)

lemma own_read:
  "heap s a k = Some v \<Longrightarrow>
     hasOwnProperty s (Ref a) k = Inr True \<and> getProp s (Ref a) k = Inr v"
  by (simp add: lookup_def ownFind_def)

lemma declaredType_slots [simp]:
  "declaredType (e\<lparr>val := x\<rparr>) = declaredType e"
  "declaredType (e\<lparr>checked := x\<rparr>) = declaredType e"
  "declaredType (e\<lparr>indeterminate := x\<rparr>) = declaredType e"
  by (simp_all add: declaredType_def getAttribute_def split: option.splits)

lemma getOptionId_slots [simp]:
  "getOptionIdFromElement (e\<lparr>val := x\<rparr>) = getOptionIdFromElement e"
  "getOptionIdFromElement (e\<lparr>checked := x\<rparr>) = getOptionIdFromElement e"
  "getOptionIdFromElement (e\<lparr>indeterminate := x\<rparr>) = getOptionIdFromElement e"
  by (simp_all add: getOptionIdFromElement_def dataset_def split: option.splits)

lemma setAttribute_checked [simp]:
  "getAttribute (setAttribute ''checked'' t e) ''type'' = getAttribute e ''type''"
  "getAttribute (setAttribute ''checked'' t e) ''value'' = getAttribute e ''value''"
  "hasAttribute (setAttribute ''checked'' t e) ''checked''"
  "val (setAttribute ''checked'' t e) = val e"
  "selectedElement (setAttribute ''checked'' t e) = selectedElement e"
  "inputs (setAttribute ''checked'' t e) = inputs e"
  "declaredType (setAttribute ''checked'' t e) = declaredType e"
  "getOptionIdFromElement (setAttribute ''checked'' t e) = getOptionIdFromElement e"
  "setAttribute ''checked'' t (setAttribute ''checked'' t e) = setAttribute ''checked'' t e"
  by (simp_all add: getAttribute_def setAttribute_def hasAttribute_def declaredType_def
        getOptionIdFromElement_def dataset_def split: option.splits)

subsection \<open>Apply, by the origin of the value\<close>

lemma apply_stored_ungrouped:
  "heap s a option = Some v \<Longrightarrow>
   applyOptionToElement option None el (Ref a) s = Inr (writeOptionValue el v s)"
  using own_read [of s a option v]
  by (simp add: applyOptionToElement_def valuePresent_def storedValue_def
           del: hasOwnProperty.simps getProp.simps)

lemma apply_default:
  assumes "hasOwnProperty s optionValues option = Inr False"
      and "hasOwnProperty s optionValues (groupKey optionGroup) = Inr False"
      and "defaultValue option optionGroup s = Inr d"
  shows "applyOptionToElement option optionGroup el optionValues s =
           Inr (if d = Undefined then s else writeOptionValue el d s)"
  using assms by (simp add: applyOptionToElement_def valuePresent_def)

subsection \<open>Writing and reading one widget, by kind\<close>






lemma extract_radiogroup:
  assumes "declaredType (elems s el) = Str ''radiogroup''"
  shows "getIdAndOptionFromElement s el =
           (case getSelectedFromRadioGroup s el of
              Inl err \<Rightarrow> Inl err
            | Inr c \<Rightarrow>
                Inr (case getOptionIdFromElement (elems s c) of
                       None \<Rightarrow> getOptionIdFromElement (elems s el)
                     | Some n \<Rightarrow> Some n,
                     val (elems s c)))"
  using assms
  by (simp add: getIdAndOptionFromElement_def Let_def split: sum.splits option.splits)

lemma firstCheckedRadio_None:
  "firstCheckedRadio es rs = None \<longleftrightarrow> (\<forall>r \<in> set rs. \<not> checkedRadio (es r))"
  by (induction rs) auto






subsection \<open>The scan of a group\<close>

lemma Number_reads:
  "otherNumbers (env s') = otherNumbers (env s) \<Longrightarrow> Number s' x = Number s x"
  by (cases x) (simp_all add: stringToNumber_def split: option.splits)

lemma extract_reads_elements:
  assumes "elems s' = elems s" and "otherNumbers (env s') = otherNumbers (env s)"
  shows "getIdAndOptionFromElement s' el = getIdAndOptionFromElement s el"
  unfolding getIdAndOptionFromElement_def getSelectedFromRadioGroup_def assms(1)
    Number_reads [OF assms(2)] ..

lemma aggregate_spec_reads_elements:
  assumes "elems s' = elems s" and "otherNumbers (env s') = otherNumbers (env s)"
  shows "aggregate_spec s' ws agg = aggregate_spec s ws agg"
  by (induction ws arbitrary: agg)
     (simp_all add: extract_reads_elements [OF assms] split: sum.splits prod.splits)

lemma memberKeys_reads_elements:
  assumes "elems s' = elems s" and "otherNumbers (env s') = otherNumbers (env s)"
  shows "memberKeys s' ws = memberKeys s ws"
  by (simp add: memberKeys_def extract_reads_elements [OF assms])

lemma memberKeys_Cons:
  "memberKeys s (w # ws) =
     (case getIdAndOptionFromElement s w of Inl err \<Rightarrow> [] | Inr (i, v) \<Rightarrow> [idKey i]) @
     memberKeys s ws"
  by (simp add: memberKeys_def)

lemma memberKeys_iff:
  "k \<in> set (memberKeys s ws) \<longleftrightarrow>
     (\<exists>w \<in> set ws. \<exists>i v. getIdAndOptionFromElement s w = Inr (i, v) \<and> idKey i = k)"
proof (induction ws)
  case Nil
  show ?case by (simp add: memberKeys_def)
next
  case (Cons u ws)
  show ?case
  proof (cases "getIdAndOptionFromElement s u")
    case (Inl err)
    with Cons.IH show ?thesis by (simp add: memberKeys_Cons)
  next
    case (Inr p)
    obtain i v where "p = (i, v)" by (cases p)
    with Inr Cons.IH show ?thesis by (auto simp add: memberKeys_Cons)
  qed
qed

lemma writeOwn_frame [simp]:
  "elems (writeOwn a k x s) = elems s"
  "env (writeOwn a k x s) = env s"
  "document (writeOwn a k x s) = document s"
  "rememberedOptions (writeOwn a k x s) = rememberedOptions s"
  "rememberedChain (writeOwn a k x s) = rememberedChain s"
  "heap (writeOwn a k x s) a = (heap s a)(k \<mapsto> x)"
  by (simp_all add: writeOwn_def)

lemma setProp_own:
  assumes "k \<noteq> ''__proto__''"
  shows "setProp (Ref a) k x s = Inr (writeOwn a k x s)"
  using lookup_no_accessor [OF assms, of s "Ref a"]
  by (cases "lookup s (Ref a) k") (simp_all split: option.splits)

lemma scanGroup_ref:
  assumes "''__proto__'' \<notin> set (memberKeys s ws)"
  shows "scanGroup (Ref a) ws s =
     (case aggregate_spec s ws (heap s a) of
        Inl err \<Rightarrow> Inl err
      | Inr agg \<Rightarrow> Inr (s\<lparr>heap := (heap s)(a := agg)\<rparr>))"
  using assms
proof (induction ws arbitrary: s)
  case Nil
  show ?case by simp
next
  case (Cons w ws)
  show ?case
  proof (cases "getIdAndOptionFromElement s w")
    case (Inl err)
    then show ?thesis by simp
  next
    case (Inr p)
    obtain i v where p: "p = (i, v)" by (cases p)
    let ?s1 = "writeOwn a (idKey i) v s"
    from Cons.prems Inr p have key: "idKey i \<noteq> ''__proto__''"
      and rest: "''__proto__'' \<notin> set (memberKeys s ws)"
      by (auto simp add: memberKeys_Cons)
    have rd: "elems ?s1 = elems s" "otherNumbers (env ?s1) = otherNumbers (env s)"
      by simp_all
    have rest1: "''__proto__'' \<notin> set (memberKeys ?s1 ws)"
      unfolding memberKeys_reads_elements [OF rd] by (rule rest)
    have h1: "heap ?s1 a = (heap s a)(idKey i \<mapsto> v)" by simp
    have same: "aggregate_spec ?s1 ws ((heap s a)(idKey i \<mapsto> v)) =
                aggregate_spec s ws ((heap s a)(idKey i \<mapsto> v))"
      by (rule aggregate_spec_reads_elements [OF rd])
    have st: "\<And>agg. ?s1\<lparr>heap := (heap ?s1)(a := agg)\<rparr> = s\<lparr>heap := (heap s)(a := agg)\<rparr>"
      by (simp add: writeOwn_def)
    have ih: "scanGroup (Ref a) ws ?s1 =
                (case aggregate_spec s ws ((heap s a)(idKey i \<mapsto> v)) of
                   Inl err \<Rightarrow> Inl err
                 | Inr agg \<Rightarrow> Inr (s\<lparr>heap := (heap s)(a := agg)\<rparr>))"
      using Cons.IH [OF rest1] unfolding h1 same st .
    have lhs: "scanGroup (Ref a) (w # ws) s = scanGroup (Ref a) ws ?s1"
      using Inr p by (simp add: setProp_own [OF key] del: setProp.simps)
    have rhs: "aggregate_spec s (w # ws) (heap s a) =
               aggregate_spec s ws ((heap s a)(idKey i \<mapsto> v))"
      using Inr p by simp
    show ?thesis unfolding lhs rhs ih ..
  qed
qed

lemma aggregate_spec_key:
  "aggregate_spec s ws agg = Inr agg' \<Longrightarrow>
     agg' k = agg k \<or>
     (\<exists>w \<in> set ws. \<exists>i v. getIdAndOptionFromElement s w = Inr (i, v) \<and> idKey i = k \<and> agg' k = Some v)"
proof (induction ws arbitrary: agg)
  case Nil
  then show ?case by simp
next
  case (Cons w ws)
  from Cons.prems obtain i v where e: "getIdAndOptionFromElement s w = Inr (i, v)"
    and r: "aggregate_spec s ws (agg(idKey i \<mapsto> v)) = Inr agg'"
    by (auto split: sum.splits)
  from Cons.IH [OF r] show ?case
  proof
    assume "agg' k = (agg(idKey i \<mapsto> v)) k"
    then show ?thesis using e by (cases "idKey i = k") auto
  next
    assume "\<exists>w \<in> set ws. \<exists>i v. getIdAndOptionFromElement s w = Inr (i, v) \<and> idKey i = k \<and> agg' k = Some v"
    then show ?thesis by auto
  qed
qed

lemma aggregate_spec_preserves:
  assumes "aggregate_spec s ws agg = Inr agg'" and "k \<notin> set (memberKeys s ws)"
  shows "agg' k = agg k"
  using aggregate_spec_key [OF assms(1), of k] assms(2)
  unfolding memberKeys_iff by blast

lemma aggregate_spec_members:
  assumes "aggregate_spec s ws agg = Inr agg'" and "w \<in> set ws"
  shows "\<exists>i v. getIdAndOptionFromElement s w = Inr (i, v) \<and> idKey i \<in> dom agg'"
  using assms
proof (induction ws arbitrary: agg)
  case Nil
  then show ?case by simp
next
  case (Cons u ws)
  from Cons.prems(1) obtain i v where e: "getIdAndOptionFromElement s u = Inr (i, v)"
    and r: "aggregate_spec s ws (agg(idKey i \<mapsto> v)) = Inr agg'"
    by (auto split: sum.splits)
  show ?case
  proof (cases "w \<in> set ws")
    case True
    from Cons.IH [OF r True] show ?thesis .
  next
    case False
    with Cons.prems(2) have "w = u" by simp
    moreover have "idKey i \<in> dom agg'"
      using aggregate_spec_key [OF r, of "idKey i"] by auto
    ultimately show ?thesis using e by simp
  qed
qed

lemma aggregate_spec_dom:
  assumes "aggregate_spec s ws Map.empty = Inr agg'"
  shows "dom agg' = set (memberKeys s ws)"
proof (intro set_eqI iffI)
  fix k
  assume "k \<in> dom agg'"
  with aggregate_spec_key [OF assms, of k] show "k \<in> set (memberKeys s ws)"
    unfolding memberKeys_iff by auto
next
  fix k
  assume "k \<in> set (memberKeys s ws)"
  then obtain w i v where w: "w \<in> set ws"
    and e: "getIdAndOptionFromElement s w = Inr (i, v)" and k: "idKey i = k"
    unfolding memberKeys_iff by blast
  from aggregate_spec_members [OF assms w] e k show "k \<in> dom agg'" by auto
qed

subsection \<open>What an assignment leaves alone\<close>

lemma link_frame:
  "link a new s = Inr s' \<Longrightarrow>
     rememberedOptions s' = rememberedOptions s \<and> elems s' = elems s \<and>
     otherNumbers (env s') = otherNumbers (env s)"
  by (auto simp add: link_def split: if_splits)

lemma protoSetter_frame:
  "protoSetter a x s = Inr s' \<Longrightarrow>
     rememberedOptions s' = rememberedOptions s \<and> elems s' = elems s \<and>
     otherNumbers (env s') = otherNumbers (env s)"
  by (cases x) (auto dest: link_frame)

lemma setProp_frame:
  assumes "setProp c k x s = Inr s'"
  shows "rememberedOptions s' = rememberedOptions s \<and> elems s' = elems s \<and>
         otherNumbers (env s') = otherNumbers (env s)"
proof (cases c)
  case (Ref a)
  with assms have "s' = writeOwn a k x s \<or> protoSetter a x s = Inr s'"
    by (auto split: option.splits found.splits)
  then show ?thesis
  proof
    assume "s' = writeOwn a k x s"
    then show ?thesis by simp
  next
    assume "protoSetter a x s = Inr s'"
    then show ?thesis by (rule protoSetter_frame)
  qed
qed (use assms in \<open>auto split: if_splits\<close>)

lemma scanGroup_frame:
  "scanGroup c ws s = Inr s' \<Longrightarrow>
     rememberedOptions s' = rememberedOptions s \<and> elems s' = elems s \<and>
     otherNumbers (env s') = otherNumbers (env s)"
proof (induction ws arbitrary: s)
  case Nil
  then show ?case by simp
next
  case (Cons w ws)
  from Cons.prems obtain i v s1 where
    "setProp c (idKey i) v s = Inr s1" and "scanGroup c ws s1 = Inr s'"
    by (auto split: sum.splits)
  with Cons.IH [of s1] setProp_frame [of c "idKey i" v s s1] show ?case by simp
qed

lemma newObject_frame [simp]:
  "rememberedOptions (newObject s) = rememberedOptions s"
  "rememberedChain (newObject s) = rememberedChain s"
  "elems (newObject s) = elems s"
  "document (newObject s) = document s"
  "otherNumbers (env (newObject s)) = otherNumbers (env s)"
  "heap (newObject s) (fresh s) = Map.empty"
  by (simp_all add: newObject_def)

lemma extract_frame:
  assumes "getIdAndOptionsFromElement el u s = Inr (r, s')"
  shows "rememberedOptions s' = rememberedOptions s \<and> elems s' = elems s"
proof (cases "if u then dataset (elems s el) ''optiongroup'' else None")
  case None
  with assms have "s' = s"
    by (auto simp add: getIdAndOptionsFromElement_def split: sum.splits)
  then show ?thesis by simp
next
  case (Some g)
  with assms obtain c s1 ws
    where s1: "s1 = s \<or> s1 = newObject s" and scan: "scanGroup c ws s1 = Inr s'"
    by (auto simp add: getIdAndOptionsFromElement_def
             split: option.splits sum.splits found.splits if_splits)
  from scanGroup_frame [OF scan] s1 show ?thesis by auto
qed

subsection \<open>Group extraction, by the state of the cache\<close>

lemma groupMembers_reads:
  "elems s' = elems s \<Longrightarrow> document s' = document s \<Longrightarrow> groupMembers g s' = groupMembers g s"
  by (simp add: groupMembers_def)

lemma extract_cached_unfold:
  assumes "dataset (elems s el) ''optiongroup'' = Some g"
      and "rememberedOptions s = Some m" and "m g = Some c" and "css_ident g"
  shows "getIdAndOptionsFromElement el True s =
           (case scanGroup c (groupMembers g s) s of
              Inl err \<Rightarrow> Inl err
            | Inr s2 \<Rightarrow> Inr ((Some g, c), s2))"
  using assms
  by (simp add: getIdAndOptionsFromElement_def rememberedFind_def
        querySelectorAll_optiongroup_def)

lemma extract_absent_unfold:
  assumes "dataset (elems s el) ''optiongroup'' = Some g"
      and "rememberedOptions s = Some m" and "m g = None" and "css_ident g"
      and "findIn s (rememberedChain s) g = Missing"
  shows "getIdAndOptionsFromElement el True s =
           (case scanGroup (Ref (fresh s)) (groupMembers g s) (newObject s) of
              Inl err \<Rightarrow> Inl err
            | Inr s2 \<Rightarrow> Inr ((Some g, Ref (fresh s)), s2))"
  using assms
  by (simp add: getIdAndOptionsFromElement_def rememberedFind_def
        querySelectorAll_optiongroup_def groupMembers_reads [of "newObject s" s])

lemma extract_group_cached:
  assumes "dataset (elems s el) ''optiongroup'' = Some g"
      and "rememberedOptions s = Some m" and "m g = Some (Ref a)" and "css_ident g"
      and "''__proto__'' \<notin> set (memberKeys s (groupMembers g s))"
  shows "getIdAndOptionsFromElement el True s =
           (case aggregate_spec s (groupMembers g s) (heap s a) of
              Inl err \<Rightarrow> Inl err
            | Inr agg \<Rightarrow> Inr ((Some g, Ref a), s\<lparr>heap := (heap s)(a := agg)\<rparr>))"
  unfolding extract_cached_unfold [OF assms(1-4)] scanGroup_ref [OF assms(5)]
  by (simp split: sum.splits)

lemma extract_group_absent:
  assumes "dataset (elems s el) ''optiongroup'' = Some g"
      and "rememberedOptions s = Some m" and "m g = None" and "css_ident g"
      and "findIn s (rememberedChain s) g = Missing"
      and "''__proto__'' \<notin> set (memberKeys s (groupMembers g s))"
  shows "getIdAndOptionsFromElement el True s =
           (case aggregate_spec s (groupMembers g s) Map.empty of
              Inl err \<Rightarrow> Inl err
            | Inr agg \<Rightarrow>
                Inr ((Some g, Ref (fresh s)),
                     (newObject s)\<lparr>heap := (heap s)(fresh s := agg)\<rparr>))"
proof -
  have rd: "elems (newObject s) = elems s"
    "otherNumbers (env (newObject s)) = otherNumbers (env s)"
    by simp_all
  have same: "aggregate_spec (newObject s) (groupMembers g s) Map.empty =
              aggregate_spec s (groupMembers g s) Map.empty"
    by (rule aggregate_spec_reads_elements [OF rd])
  have keys: "''__proto__'' \<notin> set (memberKeys (newObject s) (groupMembers g s))"
    unfolding memberKeys_reads_elements [OF rd] by (rule assms(6))
  have seed: "heap (newObject s) (fresh s) = Map.empty" by simp
  have st: "\<And>agg. (newObject s)\<lparr>heap := (heap (newObject s))(fresh s := agg)\<rparr> =
                   (newObject s)\<lparr>heap := (heap s)(fresh s := agg)\<rparr>"
    by (simp add: newObject_def)
  have scan: "scanGroup (Ref (fresh s)) (groupMembers g s) (newObject s) =
                (case aggregate_spec s (groupMembers g s) Map.empty of
                   Inl err \<Rightarrow> Inl err
                 | Inr agg \<Rightarrow> Inr ((newObject s)\<lparr>heap := (heap s)(fresh s := agg)\<rparr>))"
    unfolding scanGroup_ref [OF keys] seed same st ..
  show ?thesis
    unfolding extract_absent_unfold [OF assms(1-5)] scan by (simp split: sum.splits)
qed

lemma extract_group_returns:
  assumes "dataset (elems s el) ''optiongroup'' = Some g"
      and "css_ident g" and "findIn s (rememberedChain s) g = Missing"
      and "getIdAndOptionsFromElement el True s = Inr ((i, v), s')"
  shows "i = Some g \<and> (\<exists>m. rememberedOptions s = Some m \<and> v = aggregate_ref s m g)"
proof -
  from assms(1,4) obtain m where ro: "rememberedOptions s = Some m"
    by (cases "rememberedOptions s") (simp_all add: getIdAndOptionsFromElement_def)
  have "i = Some g \<and> v = aggregate_ref s m g"
  proof (cases "m g")
    case None
    with assms(4) show ?thesis
      unfolding extract_absent_unfold [OF assms(1) ro None assms(2,3)]
      by (simp add: aggregate_ref_def split: sum.splits)
  next
    case (Some c)
    with assms(4) show ?thesis
      unfolding extract_cached_unfold [OF assms(1) ro Some assms(2)]
      by (simp add: aggregate_ref_def split: sum.splits)
  qed
  with ro show ?thesis by simp
qed

lemma extract_group_object:
  assumes grp: "dataset (elems s el) ''optiongroup'' = Some g"
      and ro: "rememberedOptions s = Some m"
      and css: "css_ident g"
      and own: "findIn s (rememberedChain s) g = Missing"
      and keys: "''__proto__'' \<notin> set (memberKeys s (groupMembers g s))"
      and obj: "aggregate_ref s m g = Ref a"
  shows "getIdAndOptionsFromElement el True s =
           (case aggregate_spec s (groupMembers g s) (seed_spec s m g) of
              Inl err \<Rightarrow> Inl err
            | Inr result \<Rightarrow>
                Inr ((Some g, Ref a),
                     (if m g = None then newObject s else s)
                       \<lparr>heap := (heap s)(a := result)\<rparr>))"
proof (cases "m g")
  case None
  with obj have a: "a = fresh s" by (simp add: aggregate_ref_def)
  have seed: "seed_spec s m g = Map.empty" using None by (simp add: seed_spec_def)
  show ?thesis
    unfolding extract_group_absent [OF grp ro None css own keys] seed a
    using None by (simp split: sum.splits)
next
  case (Some c)
  with obj have c: "c = Ref a" by (simp add: aggregate_ref_def)
  have seed: "seed_spec s m g = heap s a" using Some c by (simp add: seed_spec_def)
  have mg: "m g = Some (Ref a)" using Some c by simp
  show ?thesis
    unfolding extract_group_cached [OF grp ro mg css keys] seed
    using Some by (simp split: sum.splits)
qed

subsection \<open>What an apply does to the cache\<close>

lemma writeOptionValue_frame [simp]:
  "rememberedOptions (writeOptionValue el v s) = rememberedOptions s"
  "heap (writeOptionValue el v s) = heap s"
  by (simp_all add: writeOptionValue_def Let_def)

lemma rememberGroup_cache:
  assumes "rememberGroup g c s = Inr s1"
  shows "rememberedOptions s1 = rememberedOptions s \<or>
         (\<exists>m. rememberedOptions s = Some m \<and> m g = None \<and>
              rememberedOptions s1 = Some (m(g \<mapsto> c)))"
  using assms
  by (auto simp add: rememberGroup_def split: option.splits found.splits jsval.splits if_splits)

lemma rememberGroup_absent:
  assumes "rememberedOptions s = Some m" and "m g = None" and "g \<noteq> ''__proto__''"
  shows "rememberGroup g c s = Inr (s\<lparr>rememberedOptions := Some (m(g \<mapsto> c))\<rparr>)"
  using assms findIn_no_accessor [OF assms(3), of s "rememberedChain s"]
  by (cases "findIn s (rememberedChain s) g") (simp_all add: rememberGroup_def)

lemma storedValue_cache:
  assumes "storedValue option og ov s = Inr (v, s1)"
  shows "rememberedOptions s1 = rememberedOptions s \<or>
         (\<exists>g m c. og = Some g \<and> rememberedOptions s = Some m \<and> m g = None \<and>
                  getProp s ov g = Inr c \<and> rememberedOptions s1 = Some (m(g \<mapsto> c)))"
proof (cases og)
  case None
  with assms show ?thesis by (auto simp add: storedValue_def split: sum.splits)
next
  case (Some g)
  with assms obtain c where c: "getProp s ov g = Inr c"
    and r: "rememberGroup g c s = Inr s1"
    by (auto simp add: storedValue_def split: sum.splits)
  from rememberGroup_cache [OF r] c Some show ?thesis by auto
qed

lemma apply_cache:
  assumes "applyOptionToElement option og w ov s = Inr s2"
  shows "rememberedOptions s2 = rememberedOptions s \<or>
         (\<exists>g m c. og = Some g \<and> rememberedOptions s = Some m \<and> m g = None \<and>
                  getProp s ov g = Inr c \<and> rememberedOptions s2 = Some (m(g \<mapsto> c)))"
proof (cases "valuePresent option og ov s")
  case (Inl err)
  with assms show ?thesis by (simp add: applyOptionToElement_def)
next
  case (Inr present)
  show ?thesis
  proof (cases present)
    case False
    with Inr assms show ?thesis
      by (auto simp add: applyOptionToElement_def split: sum.splits if_splits)
  next
    case True
    with Inr assms obtain v s1 where st: "storedValue option og ov s = Inr (v, s1)"
      and s2: "s2 = writeOptionValue w v s1"
      by (auto simp add: applyOptionToElement_def split: sum.splits)
    from storedValue_cache [OF st] s2 show ?thesis by simp
  qed
qed

lemma apply_caches_group:
  assumes "valuePresent option (Some g) ov s = Inr True \<and>
           rememberedOptions s = Some m \<and> m g = None \<and> g \<noteq> ''__proto__'' \<and>
           applyOptionToElement option (Some g) w ov s = Inr s2"
  shows "\<exists>c. getProp s ov g = Inr c \<and> rememberedOptions s2 = Some (m(g \<mapsto> c))"
proof -
  from assms obtain v s1 where st: "storedValue option (Some g) ov s = Inr (v, s1)"
    and s2: "s2 = writeOptionValue w v s1"
    by (auto simp add: applyOptionToElement_def split: sum.splits)
  from st obtain c where c: "getProp s ov g = Inr c"
    and r: "rememberGroup g c s = Inr s1"
    by (auto simp add: storedValue_def split: sum.splits)
  from assms have "rememberGroup g c s = Inr (s\<lparr>rememberedOptions := Some (m(g \<mapsto> c))\<rparr>)"
    by (intro rememberGroup_absent) simp_all
  with r have "s1 = s\<lparr>rememberedOptions := Some (m(g \<mapsto> c))\<rparr>" by simp
  with s2 c show ?thesis by simp
qed

subsection \<open>Facts about the sample page\<close>

lemma picked_members:
  assumes "elems st = elems picked" and "document st = document picked"
  shows "groupMembers ''qrCodeSize'' st = [1, 4]"
  unfolding groupMembers_def assms
  by (simp add: picked_def session_def page_def blank_def radio_def setAttribute_def)

lemma picked_extracts:
  assumes "elems st = elems picked" and "otherNumbers (env st) = otherNumbers (env picked)"
  shows "getIdAndOptionFromElement st 1 = Inr (Some ''sizeType'', Str ''fixed'')"
    and "getIdAndOptionFromElement st 4 = Inr (Some ''size'', Num 150)"
proof -
  have "getIdAndOptionFromElement picked 1 = Inr (Some ''sizeType'', Str ''fixed'')"
    by (simp add: picked_def session_def page_def blank_def radio_def setAttribute_def
          getIdAndOptionFromElement_def getSelectedFromRadioGroup_def checkedRadio_def
          declaredType_def getAttribute_def hasAttribute_def getOptionIdFromElement_def
          dataset_def Let_def)
  then show "getIdAndOptionFromElement st 1 = Inr (Some ''sizeType'', Str ''fixed'')"
    unfolding extract_reads_elements [OF assms] .
  have "getIdAndOptionFromElement picked 4 = Inr (Some ''size'', Num 150)"
    by (simp add: picked_def session_def page_def blank_def
          getIdAndOptionFromElement_def declaredType_def getAttribute_def
          getOptionIdFromElement_def dataset_def Let_def
          stringToNumber_def integerLiteral_def safe_integer_def
          trim_def is_space_def unsigned_literal_def is_digit_def)
  then show "getIdAndOptionFromElement st 4 = Inr (Some ''size'', Num 150)"
    unfolding extract_reads_elements [OF assms] .
qed

lemma picked_aggregate:
  assumes "elems st = elems picked" and "otherNumbers (env st) = otherNumbers (env picked)"
  shows "aggregate_spec st [1, 4] seed =
           Inr (seed(''sizeType'' \<mapsto> Str ''fixed'', ''size'' \<mapsto> Num 150))"
  using picked_extracts [OF assms] by (simp add: idKey_def)

lemma picked_keys:
  assumes "elems st = elems picked" and "otherNumbers (env st) = otherNumbers (env picked)"
  shows "memberKeys st [1, 4] = [''sizeType'', ''size'']"
  using picked_extracts [OF assms] by (simp add: memberKeys_def idKey_def)

lemma qrCodeSize_ident: "css_ident ''qrCodeSize''"
  by (simp add: name_start_char_def name_char_def is_digit_def)

lemma qrCodeSize_not_inherited:
  assumes "heap st 5 = objects 5"
  shows "findIn st [5] ''qrCodeSize'' = Missing"
  using assms by (simp add: ownFind_def objects_def)

lemma remembered_facts:
  "elems remembered = elems picked"
  "document remembered = document picked"
  "rememberedOptions remembered = Some [''qrCodeSize'' \<mapsto> Ref 1]"
  "dataset (elems remembered 4) ''optiongroup'' = Some ''qrCodeSize''"
  "dataset (elems remembered 1) ''optiongroup'' = Some ''qrCodeSize''"
  "otherNumbers (env remembered) = otherNumbers (env picked)"
  "rememberedChain remembered = [5]"
  "heap remembered 5 = objects 5"
  by (simp_all add: remembered_def picked_def session_def page_def blank_def dataset_def)

lemma remembered_keys:
  "''__proto__'' \<notin> set (memberKeys remembered (groupMembers ''qrCodeSize'' remembered))"
  unfolding picked_members [OF remembered_facts(1,2)] picked_keys [OF remembered_facts(1,6)]
  by simp

lemma remembered_extraction:
  assumes "el = 1 \<or> el = 4"
  shows "getIdAndOptionsFromElement el True remembered =
           Inr ((Some ''qrCodeSize'', Ref 1), rescanned)"
proof -
  have grp: "dataset (elems remembered el) ''optiongroup'' = Some ''qrCodeSize''"
    using assms remembered_facts(4,5) by auto
  have mg: "[''qrCodeSize'' \<mapsto> Ref 1] ''qrCodeSize'' = Some (Ref 1)" by simp
  show ?thesis
    unfolding extract_group_cached [OF grp remembered_facts(3) mg qrCodeSize_ident remembered_keys]
      picked_members [OF remembered_facts(1,2)] picked_aggregate [OF remembered_facts(1,6)]
    by (simp add: rescanned_def)
qed

lemma picked_facts:
  "rememberedOptions picked = Some Map.empty"
  "dataset (elems picked 1) ''optiongroup'' = Some ''qrCodeSize''"
  "fresh picked = 12"
  "rememberedChain picked = [5]"
  "heap picked 5 = objects 5"
  by (simp_all add: picked_def session_def page_def blank_def dataset_def)

lemma rescanned_facts:
  "elems rescanned = elems picked"
  "document rescanned = document picked"
  "fresh rescanned = 12"
  "dataset (elems rescanned 4) ''optiongroup'' = Some ''qrCodeSize''"
  "otherNumbers (env rescanned) = otherNumbers (env picked)"
  "objectPrototype (env rescanned) = 5"
  "heap rescanned 5 = objects 5"
  by (simp_all add: rescanned_def remembered_def picked_def session_def page_def blank_def
        dataset_def standard_def)

section \<open>Properties\<close>

subsection \<open>Readiness\<close>

text \<open>
  Claim C7. \<open>isReady\<close> returns true once a default option provider has been registered,
  be it a callback or the explicit \<^verbatim>\<open>null\<close>; it fails with the configuration error in
  the state of a freshly loaded module, where no provider has been set, and after the
  provider has been unset again. Resetting the cache does not change the answer.
\<close>

theorem isReady_after_registration:
  "isReady (setDefaultOptionProvider (Provider f) s) = Inr True \<and>
   isReady (setDefaultOptionProvider Disabled s) = Inr True \<and>
   isReady (setDefaultOptionProvider Unset s) = Inl ConfigurationError \<and>
   isReady (moduleLoaded h n es d w) = Inl ConfigurationError \<and>
   isReady (resetRememberedOptions s) = isReady s"
  by (simp add: isReady_def setDefaultOptionProvider_def moduleLoaded_def
        resetRememberedOptions_def)

subsection \<open>An option stored without its group\<close>

text \<open>
  Claim C9, as amended. When \<open>applyOptionToElement\<close> is called with a group id that is
  not \<^verbatim>\<open>null\<close>, the loaded value map has the option id as a key but not the group id,
  and the loaded value map inherits no property of the group's name from its prototypes
  either, the call throws a type error: it reads the option out of the missing group's
  map.
\<close>

theorem option_without_group_throws:
  assumes "hasOwnProperty s optionValues option = Inr True"
      and "hasOwnProperty s optionValues g = Inr False"
      and "findIn s (chain (env s) optionValues) g = Missing"
  shows "applyOptionToElement option (Some g) elOption optionValues s = Inl TypeError"
proof -
  have present: "valuePresent option (Some g) optionValues s = Inr True"
    using assms(1) by (simp add: valuePresent_def)
  have "getProp s optionValues g = Inr Undefined"
    using assms(2,3) by (rule absent_reads_undefined)
  then have "storedValue option (Some g) optionValues s = Inl TypeError"
    by (simp add: storedValue_def)
  with present show ?thesis
    by (simp add: applyOptionToElement_def)
qed

theorem option_without_group_throws_witness:
  "applyOptionToElement ''size'' (Some ''qrCodeSize'') 4 (Ref 1) session = Inl TypeError"
proof -
  have a: "hasOwnProperty session (Ref 1) ''size'' = Inr True"
    by (simp add: session_def objects_def ownFind_def)
  have b: "hasOwnProperty session (Ref 1) ''qrCodeSize'' = Inr False"
    by (simp add: session_def objects_def ownFind_def standard_def)
  have c: "findIn session (chain (env session) (Ref 1)) ''qrCodeSize'' = Missing"
    by (simp add: session_def objects_def ownFind_def lookup_def standard_def ancestors_def)
  from option_without_group_throws [OF a b c] show ?thesis .
qed

text \<open>
  The claim as stated asks only that the group id be no key of the loaded value map.
  On the sample page the map of object 1 has the key \<open>size\<close> and no key \<open>toString\<close>, but
  inherits \<^verbatim>\<open>toString\<close> from \<^verbatim>\<open>Object.prototype\<close>. The call for the option \<open>size\<close> of a
  group \<open>toString\<close> does not throw: it takes the inherited function (object 7) for the
  group's map, puts it into the cache, reads \<^verbatim>\<open>undefined\<close> from it and writes that into
  the widget.
\<close>

theorem inherited_group_counterexample:
  "hasOwnProperty session (Ref 1) ''size'' = Inr True \<and>
   hasOwnProperty session (Ref 1) ''toString'' = Inr False \<and>
   applyOptionToElement ''size'' (Some ''toString'') 4 (Ref 1) session =
     Inr (writeOptionValue 4 Undefined
            (session\<lparr>rememberedOptions := Some [''toString'' \<mapsto> Ref 7]\<rparr>))"
proof -
  have a: "hasOwnProperty session (Ref 1) ''size'' = Inr True"
    by (simp add: session_def objects_def ownFind_def)
  have b: "hasOwnProperty session (Ref 1) ''toString'' = Inr False"
    by (simp add: session_def objects_def ownFind_def standard_def)
  have grp: "getProp session (Ref 1) ''toString'' = Inr (Ref 7)"
    by (simp add: session_def objects_def ownFind_def lookup_def standard_def ancestors_def)
  have opt: "getProp session (Ref 7) ''size'' = Inr Undefined"
    by (simp add: session_def objects_def ownFind_def lookup_def standard_def ancestors_def)
  have rem: "rememberGroup ''toString'' (Ref 7) session =
               Inr (session\<lparr>rememberedOptions := Some [''toString'' \<mapsto> Ref 7]\<rparr>)"
    by (simp add: rememberGroup_def session_def objects_def ownFind_def standard_def)
  have "applyOptionToElement ''size'' (Some ''toString'') 4 (Ref 1) session =
     Inr (writeOptionValue 4 Undefined
            (session\<lparr>rememberedOptions := Some [''toString'' \<mapsto> Ref 7]\<rparr>))"
    using a grp opt rem
    by (simp add: applyOptionToElement_def valuePresent_def storedValue_def
          del: hasOwnProperty.simps getProp.simps)
  with a b show ?thesis by simp
qed

subsection \<open>The tri-state toggle\<close>



subsection \<open>Defaults\<close>




subsection \<open>Extracting an exclusive-choice group\<close>

text \<open>
  Claim C2, as amended. For an exclusive-choice (radiogroup) widget: with no explicit
  selected-element marker and no radio child carrying the selected flag, extraction
  fails with the selection error, which reaches the caller of
  \<open>getIdAndOptionsFromElement\<close>; with a selected child \<open>c\<close> (the marker if there is one,
  else the first radio child carrying the flag) extraction returns the value of \<open>c\<close>
  together with the id \<open>c\<close> declares, or the group wrapper's id when \<open>c\<close> declares none.
\<close>

theorem radiogroup_selection:
  assumes "declaredType (elems s el) = Str ''radiogroup''"
  shows "(selectedElement (elems s el) = None \<and>
          (\<forall>r \<in> set (inputs (elems s el)).
              \<not> checkedRadio (elems s r))
          \<longrightarrow> getIdAndOptionFromElement s el = Inl SelectionError \<and>
              getIdAndOptionsFromElement el False s = Inl SelectionError) \<and>
         (selectedElement (elems s el) = Some c \<or>
          selectedElement (elems s el) = None \<and>
          firstCheckedRadio (elems s) (inputs (elems s el)) = Some c
          \<longrightarrow> getIdAndOptionFromElement s el =
                Inr (case getOptionIdFromElement (elems s c) of
                       None \<Rightarrow> getOptionIdFromElement (elems s el)
                     | Some n \<Rightarrow> Some n,
                     val (elems s c)))"
proof (intro conjI impI)
  assume a: "selectedElement (elems s el) = None \<and>
          (\<forall>r \<in> set (inputs (elems s el)).
              \<not> checkedRadio (elems s r))"
  then have "firstCheckedRadio (elems s) (inputs (elems s el)) = None"
    by (simp add: firstCheckedRadio_None)
  with a have "getSelectedFromRadioGroup s el = Inl SelectionError"
    by (simp add: getSelectedFromRadioGroup_def)
  then show e: "getIdAndOptionFromElement s el = Inl SelectionError"
    by (simp add: extract_radiogroup [OF assms])
  then show "getIdAndOptionsFromElement el False s = Inl SelectionError"
    by (simp add: getIdAndOptionsFromElement_def)
next
  assume "selectedElement (elems s el) = Some c \<or>
               selectedElement (elems s el) = None \<and>
               firstCheckedRadio (elems s) (inputs (elems s el)) = Some c"
  then have "getSelectedFromRadioGroup s el = Inr c"
    by (auto simp add: getSelectedFromRadioGroup_def)
  then show "getIdAndOptionFromElement s el =
                Inr (case getOptionIdFromElement (elems s c) of
                       None \<Rightarrow> getOptionIdFromElement (elems s el)
                     | Some n \<Rightarrow> Some n,
                     val (elems s c))"
    by (simp add: extract_radiogroup [OF assms])
qed

theorem radiogroup_selection_witness:
  "getIdAndOptionFromElement session 1 = Inl SelectionError \<and>
   getIdAndOptionsFromElement 1 False session = Inl SelectionError \<and>
   getIdAndOptionFromElement picked 1 = Inr (Some ''sizeType'', Str ''fixed'')"
proof -
  have k: "declaredType (elems session 1) = Str ''radiogroup''"
    by (simp add: session_def page_def blank_def declaredType_def getAttribute_def)
  have none: "selectedElement (elems session 1) = None \<and>
          (\<forall>r \<in> set (inputs (elems session 1)).
              \<not> checkedRadio (elems session r))"
    by (simp add: session_def page_def blank_def radio_def hasAttribute_def checkedRadio_def)
  have k': "declaredType (elems picked 1) = Str ''radiogroup''"
    by (simp add: picked_def session_def page_def blank_def declaredType_def getAttribute_def)
  have some: "selectedElement (elems picked 1) = Some 3 \<or>
          selectedElement (elems picked 1) = None \<and>
          firstCheckedRadio (elems picked) (inputs (elems picked 1)) = Some 3"
    by (simp add: picked_def session_def page_def blank_def radio_def hasAttribute_def
          getAttribute_def setAttribute_def checkedRadio_def)
  have i: "getOptionIdFromElement (elems picked 3) = Some ''sizeType''"
    by (simp add: picked_def session_def page_def blank_def radio_def setAttribute_def
          getOptionIdFromElement_def)
  have v: "val (elems picked 3) = Str ''fixed''"
    by (simp add: picked_def session_def page_def blank_def radio_def setAttribute_def)
  from radiogroup_selection [OF k, of 3] none
  have unselected: "getIdAndOptionFromElement session 1 = Inl SelectionError \<and>
                    getIdAndOptionsFromElement 1 False session = Inl SelectionError"
    by blast
  from radiogroup_selection [OF k', of 3] some
  have "getIdAndOptionFromElement picked 1 =
          Inr (case getOptionIdFromElement (elems picked 3) of
                 None \<Rightarrow> getOptionIdFromElement (elems picked 1)
               | Some n \<Rightarrow> Some n,
               val (elems picked 3))"
    by blast
  with unselected i v show ?thesis by simp
qed

text \<open>
  The claim as stated fails on the second exclusive-choice group of the sample page:
  its selected radio button declares no id, and the id returned is the wrapper's.
\<close>

theorem radiogroup_child_id_counterexample:
  "getOptionIdFromElement (elems session 7) = None \<and>
   getOptionIdFromElement (elems session 6) = Some ''theme'' \<and>
   getIdAndOptionFromElement session 6 = Inr (Some ''theme'', Str ''dark'')"
  by (simp add: session_def page_def blank_def getOptionIdFromElement_def dataset_def
        getIdAndOptionFromElement_def declaredType_def getAttribute_def hasAttribute_def
        getSelectedFromRadioGroup_def checkedRadio_def Let_def)

subsection \<open>Apply, then extract\<close>




text \<open>
  Why the toggle must not be indeterminate beforehand: applying a boolean sets the
  checked state and leaves the indeterminate flag as it is, so a toggle that an
  earlier \<^verbatim>\<open>null\<close> made indeterminate still extracts as \<^verbatim>\<open>null\<close> after \<^verbatim>\<open>true\<close> has
  been applied to it.
\<close>

lemma indeterminate_outlives_apply:
  "applyOptionToElement ''popupIconColored'' None 0 (Ref 4) (writeOptionValue 0 Null session) =
     Inr (writeOptionValue 0 (Bool True) (writeOptionValue 0 Null session)) \<and>
   getIdAndOptionFromElement (writeOptionValue 0 (Bool True) (writeOptionValue 0 Null session)) 0 =
     Inr (Some ''popupIconColored'', Null)"
proof -
  have a: "heap (writeOptionValue 0 Null session) 4 ''popupIconColored'' = Some (Bool True)"
    by (simp add: session_def objects_def ownFind_def lookup_def standard_def ancestors_def)
  have e: "getIdAndOptionFromElement
              (writeOptionValue 0 (Bool True) (writeOptionValue 0 Null session)) 0 =
              Inr (Some ''popupIconColored'', Null)"
    by (simp add: writeOptionValue_def Let_def session_def page_def blank_def
          declaredType_def getAttribute_def getIdAndOptionFromElement_def
          getOptionIdFromElement_def)
  from apply_stored_ungrouped [OF a] e show ?thesis by simp
qed

subsection \<open>No stored value and no default\<close>

text \<open>
  The skip itself: when neither key is in the loaded value map and the default lookup
  ends in \<^verbatim>\<open>undefined\<close>, the call returns and leaves the whole state as it was.
\<close>

lemma silent_skip:
  assumes "hasOwnProperty s optionValues option = Inr False"
      and "hasOwnProperty s optionValues (groupKey optionGroup) = Inr False"
      and "defaultValue option optionGroup s = Inr Undefined"
  shows "applyOptionToElement option optionGroup el optionValues s = Inr s"
  using apply_default [OF assms] by simp

text \<open>
  Claim C4. The claim asks for a silent no-op whenever neither key is in the loaded
  value map and the provider yields no default. For a grouped option the module reads
  the option out of whatever the provider returns for the group id; when the provider
  has no default for the group and returns \<^verbatim>\<open>undefined\<close>, that read throws. The call
  below is \<^verbatim>\<open>applyOptionToElement("size", "qrCodeSize", el, {})\<close> with a provider that
  returns \<^verbatim>\<open>undefined\<close> for every id.
\<close>

theorem no_group_default_throws:
  "applyOptionToElement ''size'' (Some ''qrCodeSize'') 4 (Ref 3)
     (setDefaultOptionProvider (Provider (\<lambda>i. Undefined)) session) = Inl TypeError"
  by (simp add: applyOptionToElement_def valuePresent_def defaultValue_def groupKey_def
        setDefaultOptionProvider_def session_def objects_def ownFind_def lookup_def
        standard_def ancestors_def)

subsection \<open>Extracting a group\<close>

text \<open>
  Claim C1, as amended. Let the widget declare membership in group \<open>g\<close>, where \<open>g\<close> is a
  CSS identifier (it is spliced unquoted into the selector), the cache object inherits
  no property of that name from its prototypes, and no member of the group writes the
  key \<^verbatim>\<open>__proto__\<close>. Whenever \<open>getIdAndOptionsFromElement\<close> returns in group mode, the
  pair it returns is the group id with the aggregate: the cache entry of \<open>g\<close> if there
  is one, a new object otherwise. The aggregate holds what the specification
  describes, the seed (the cached contents, or the empty map) overwritten with the
  id/value pair of every widget of the document that declares \<open>g\<close>, in document order:
  every key that no member writes keeps its cached value, and every member's key is
  present. The call does return when the cache has been initialised, the aggregate is
  an object and every member extracts without error.
\<close>

theorem group_extraction:
  assumes grp: "dataset (elems s el) ''optiongroup'' = Some g"
      and ident: "css_ident g"
      and own: "findIn s (rememberedChain s) g = Missing"
      and keys: "''__proto__'' \<notin> set (memberKeys s (groupMembers g s))"
  shows "(getIdAndOptionsFromElement el True s = Inr ((i, v), s') \<longrightarrow>
            i = Some g \<and>
            (\<exists>m. rememberedOptions s = Some m \<and> v = aggregate_ref s m g \<and>
                 (\<forall>a. v = Ref a \<longrightarrow>
                    aggregate_spec s (groupMembers g s) (seed_spec s m g) = Inr (heap s' a) \<and>
                    (\<forall>k. k \<notin> set (memberKeys s (groupMembers g s)) \<longrightarrow>
                         heap s' a k = seed_spec s m g k) \<and>
                    (\<forall>w \<in> set (groupMembers g s).
                        \<exists>j x. getIdAndOptionFromElement s w = Inr (j, x) \<and>
                              idKey j \<in> dom (heap s' a))))) \<and>
         (rememberedOptions s = Some cache \<and> aggregate_ref s cache g = Ref obj0 \<and>
          aggregate_spec s (groupMembers g s) (seed_spec s cache g) = Inr result \<longrightarrow>
            (\<exists>s0. getIdAndOptionsFromElement el True s = Inr ((Some g, Ref obj0), s0) \<and>
                  heap s0 obj0 = result))"
proof (intro conjI impI)
  assume res: "getIdAndOptionsFromElement el True s = Inr ((i, v), s')"
  from extract_group_returns [OF grp ident own res] obtain m
    where i: "i = Some g"
      and ro: "rememberedOptions s = Some m" and v: "v = aggregate_ref s m g"
    by blast
  show "i = Some g" by (rule i)
  have "\<forall>a. v = Ref a \<longrightarrow>
          aggregate_spec s (groupMembers g s) (seed_spec s m g) = Inr (heap s' a) \<and>
          (\<forall>k. k \<notin> set (memberKeys s (groupMembers g s)) \<longrightarrow>
               heap s' a k = seed_spec s m g k) \<and>
          (\<forall>w \<in> set (groupMembers g s).
              \<exists>j x. getIdAndOptionFromElement s w = Inr (j, x) \<and> idKey j \<in> dom (heap s' a))"
  proof (intro allI impI)
    fix a
    assume "v = Ref a"
    with v have obj: "aggregate_ref s m g = Ref a" by simp
    from res obtain agg'
      where spec: "aggregate_spec s (groupMembers g s) (seed_spec s m g) = Inr agg'"
        and h: "heap s' a = agg'"
      unfolding extract_group_object [OF grp ro ident own keys obj]
      by (cases "aggregate_spec s (groupMembers g s) (seed_spec s m g)") auto
    show "aggregate_spec s (groupMembers g s) (seed_spec s m g) = Inr (heap s' a) \<and>
          (\<forall>k. k \<notin> set (memberKeys s (groupMembers g s)) \<longrightarrow>
               heap s' a k = seed_spec s m g k) \<and>
          (\<forall>w \<in> set (groupMembers g s).
              \<exists>j x. getIdAndOptionFromElement s w = Inr (j, x) \<and> idKey j \<in> dom (heap s' a))"
      unfolding h
      using spec aggregate_spec_preserves [OF spec] aggregate_spec_members [OF spec]
      by blast
  qed
  with ro v
  show "\<exists>m. rememberedOptions s = Some m \<and> v = aggregate_ref s m g \<and>
                 (\<forall>a. v = Ref a \<longrightarrow>
                    aggregate_spec s (groupMembers g s) (seed_spec s m g) = Inr (heap s' a) \<and>
                    (\<forall>k. k \<notin> set (memberKeys s (groupMembers g s)) \<longrightarrow>
                         heap s' a k = seed_spec s m g k) \<and>
                    (\<forall>w \<in> set (groupMembers g s).
                        \<exists>j x. getIdAndOptionFromElement s w = Inr (j, x) \<and>
                              idKey j \<in> dom (heap s' a)))"
    by blast
next
  assume a: "rememberedOptions s = Some cache \<and> aggregate_ref s cache g = Ref obj0 \<and>
          aggregate_spec s (groupMembers g s) (seed_spec s cache g) = Inr result"
  then have ro: "rememberedOptions s = Some cache"
    and obj: "aggregate_ref s cache g = Ref obj0"
    and spec: "aggregate_spec s (groupMembers g s) (seed_spec s cache g) = Inr result"
    by simp_all
  show "\<exists>s0. getIdAndOptionsFromElement el True s = Inr ((Some g, Ref obj0), s0) \<and>
             heap s0 obj0 = result"
    unfolding extract_group_object [OF grp ro ident own keys obj] using spec by simp
qed

theorem group_extraction_witness:
  "getIdAndOptionsFromElement 4 True remembered =
     Inr ((Some ''qrCodeSize'', Ref 1), rescanned) \<and>
   aggregate_spec remembered (groupMembers ''qrCodeSize'' remembered) (heap remembered 1) =
     Inr (heap rescanned 1) \<and>
   heap remembered 1 ''size'' = Some (Num 200) \<and>
   heap rescanned 1 ''size'' = Some (Num 150) \<and>
   heap rescanned 1 ''sizeType'' = Some (Str ''fixed'') \<and>
   heap rescanned 1 ''margin'' = Some (Num 4)"
proof -
  let ?m = "[''qrCodeSize'' \<mapsto> Ref 1]"
  have res: "getIdAndOptionsFromElement 4 True remembered =
               Inr ((Some ''qrCodeSize'', Ref 1), rescanned)"
    by (rule remembered_extraction) simp
  have seed: "seed_spec remembered ?m ''qrCodeSize'' = heap remembered 1"
    by (simp add: seed_spec_def)
  have own: "findIn remembered (rememberedChain remembered) ''qrCodeSize'' = Missing"
    unfolding remembered_facts(7) by (rule qrCodeSize_not_inherited [OF remembered_facts(8)])
  from group_extraction [OF remembered_facts(4) qrCodeSize_ident own remembered_keys,
         of "Some ''qrCodeSize''" "Ref 1" rescanned] res
  obtain m where m: "rememberedOptions remembered = Some m"
    and spec: "aggregate_spec remembered (groupMembers ''qrCodeSize'' remembered)
                 (seed_spec remembered m ''qrCodeSize'') = Inr (heap rescanned 1)"
    and keep: "\<forall>k. k \<notin> set (memberKeys remembered (groupMembers ''qrCodeSize'' remembered)) \<longrightarrow>
                 heap rescanned 1 k = seed_spec remembered m ''qrCodeSize'' k"
    by blast
  from m remembered_facts(3) have mm: "m = ?m" by simp
  have "''margin'' \<notin> set (memberKeys remembered (groupMembers ''qrCodeSize'' remembered))"
    unfolding picked_members [OF remembered_facts(1,2)] picked_keys [OF remembered_facts(1,6)]
    by simp
  with keep have "heap rescanned 1 ''margin'' = seed_spec remembered m ''qrCodeSize'' ''margin''"
    by blast
  then have margin: "heap rescanned 1 ''margin'' = Some (Num 4)"
    unfolding mm seed
    by (simp add: remembered_def picked_def session_def objects_def)
  have before: "heap remembered 1 ''size'' = Some (Num 200)"
    by (simp add: remembered_def picked_def session_def objects_def)
  have after: "heap rescanned 1 ''size'' = Some (Num 150) \<and>
               heap rescanned 1 ''sizeType'' = Some (Str ''fixed'')"
    by (simp add: rescanned_def)
  from res spec [unfolded mm seed] before after margin show ?thesis by simp
qed

text \<open>
  The claim as stated covers every group id. The text field 8 of the sample page
  declares the group \<open>toString\<close>, and the cache is empty. The test
  \<^verbatim>\<open>optionGroup in rememberedOptions\<close> is true all the same, because the cache object
  inherits \<^verbatim>\<open>toString\<close> from \<^verbatim>\<open>Object.prototype\<close>: the aggregate that comes back is that
  function (object 7) with its own members, not a map seeded empty, and the widget's
  value has been written into the function.
\<close>

theorem inherited_aggregate_counterexample:
  "dataset (elems session 8) ''optiongroup'' = Some ''toString'' \<and>
   rememberedOptions session = Some Map.empty \<and>
   getIdAndOptionsFromElement 8 True session =
     Inr ((Some ''toString'', Ref 7), writeOwn 7 ''label'' (Str ''QR'') session) \<and>
   heap (writeOwn 7 ''label'' (Str ''QR'') session) 7 =
     [''length'' \<mapsto> Num 0, ''name'' \<mapsto> Str ''toString'', ''label'' \<mapsto> Str ''QR'']"
proof -
  have grp: "dataset (elems session 8) ''optiongroup'' = Some ''toString''"
    by (simp add: session_def page_def blank_def dataset_def)
  have ro: "rememberedOptions session = Some Map.empty"
    by (simp add: session_def)
  have found: "rememberedFind session Map.empty ''toString'' = Data (Ref 7)"
    by (simp add: rememberedFind_def session_def objects_def ownFind_def)
  have sel: "querySelectorAll_optiongroup ''toString'' session = Inr [8]"
    by (simp add: querySelectorAll_optiongroup_def groupMembers_def name_start_char_def
          name_char_def is_digit_def session_def page_def blank_def radio_def)
  have one: "getIdAndOptionFromElement session 8 = Inr (Some ''label'', Str ''QR'')"
    by (simp add: session_def page_def blank_def getIdAndOptionFromElement_def
          declaredType_def getAttribute_def getOptionIdFromElement_def dataset_def Let_def)
  have key: "''label'' \<noteq> ''__proto__''" by simp
  have scan: "scanGroup (Ref 7) [8] session = Inr (writeOwn 7 ''label'' (Str ''QR'') session)"
    using one by (simp add: idKey_def setProp_own [OF key] del: setProp.simps)
  have res: "getIdAndOptionsFromElement 8 True session =
     Inr ((Some ''toString'', Ref 7), writeOwn 7 ''label'' (Str ''QR'') session)"
    using grp ro found sel scan by (simp add: getIdAndOptionsFromElement_def)
  have hp: "heap (writeOwn 7 ''label'' (Str ''QR'') session) 7 =
     [''length'' \<mapsto> Num 0, ''name'' \<mapsto> Str ''toString'', ''label'' \<mapsto> Str ''QR'']"
    by (simp add: session_def objects_def)
  from grp ro res hp show ?thesis by blast
qed

text \<open>
  Why the group id must be a CSS identifier: for the group \<open>q i\<close> of the text field 9
  the selector reads as the identifier \<open>q\<close> with the flag \<^verbatim>\<open>i\<close>, and the aggregate that
  comes back holds the field \<open>second\<close> of the group \<open>q\<close> and not the field \<open>first\<close>
  of the group asked for.
\<close>

lemma flagged_group_scans_other_group:
  "groupMembers ''q i'' session = [9] \<and>
   getIdAndOptionFromElement session 9 = Inr (Some ''first'', Str ''one'') \<and>
   getIdAndOptionsFromElement 9 True session =
     Inr ((Some ''q i'', Ref 12), writeOwn 12 ''second'' (Str ''two'') (newObject session)) \<and>
   heap (writeOwn 12 ''second'' (Str ''two'') (newObject session)) 12 =
     [''second'' \<mapsto> Str ''two'']"
proof -
  let ?n = "newObject session"
  have grp: "dataset (elems session 9) ''optiongroup'' = Some ''q i''"
    by (simp add: session_def page_def blank_def dataset_def)
  have ro: "rememberedOptions session = Some Map.empty"
    by (simp add: session_def)
  have fr: "fresh session = 12" by (simp add: session_def)
  have found: "rememberedFind session Map.empty ''q i'' = Missing"
    by (simp add: rememberedFind_def session_def objects_def ownFind_def standard_def)
  have mem: "groupMembers ''q i'' session = [9]"
    by (simp add: groupMembers_def session_def page_def blank_def radio_def)
  have flag: "flaggedIdent ''q i'' = Some ''q''"
    by (simp add: flaggedIdent_def css_space_def name_start_char_def Let_def)
  have anycase: "groupMembersAnyCase ''q'' ?n = [10]"
    by (simp add: groupMembersAnyCase_def lower_def session_def page_def blank_def radio_def)
  have sel: "querySelectorAll_optiongroup ''q i'' ?n = Inr [10]"
    using flag anycase
    by (simp add: querySelectorAll_optiongroup_def name_start_char_def name_char_def
          is_digit_def)
  have first: "getIdAndOptionFromElement session 9 = Inr (Some ''first'', Str ''one'')"
    by (simp add: session_def page_def blank_def getIdAndOptionFromElement_def
          declaredType_def getAttribute_def getOptionIdFromElement_def dataset_def Let_def)
  have second: "getIdAndOptionFromElement ?n 10 = Inr (Some ''second'', Str ''two'')"
    by (simp add: session_def page_def blank_def getIdAndOptionFromElement_def
          declaredType_def getAttribute_def getOptionIdFromElement_def dataset_def Let_def)
  have key: "''second'' \<noteq> ''__proto__''" by simp
  have scan: "scanGroup (Ref 12) [10] ?n = Inr (writeOwn 12 ''second'' (Str ''two'') ?n)"
    using second by (simp add: idKey_def setProp_own [OF key] del: setProp.simps)
  have res: "getIdAndOptionsFromElement 9 True session =
     Inr ((Some ''q i'', Ref 12), writeOwn 12 ''second'' (Str ''two'') ?n)"
    using grp ro found sel scan fr by (simp add: getIdAndOptionsFromElement_def)
  have hp: "heap (writeOwn 12 ''second'' (Str ''two'') ?n) 12 = [''second'' \<mapsto> Str ''two'']"
    using newObject_frame(6) [of session] unfolding fr writeOwn_frame(6) by simp
  from mem first res hp show ?thesis by blast
qed

text \<open>
  Why no member may write the key \<^verbatim>\<open>__proto__\<close>: the text field 11 of the group \<open>p\<close>
  has that name. The assignment of its value runs the setter the new aggregate
  inherits, which ignores a string, and the aggregate comes back empty.
\<close>

lemma proto_member_not_written:
  "getIdAndOptionFromElement session 11 = Inr (Some ''__proto__'', Str ''three'') \<and>
   getIdAndOptionsFromElement 11 True session = Inr ((Some ''p'', Ref 12), newObject session) \<and>
   heap (newObject session) 12 = Map.empty"
proof -
  let ?n = "newObject session"
  have grp: "dataset (elems session 11) ''optiongroup'' = Some ''p''"
    by (simp add: session_def page_def blank_def dataset_def)
  have ro: "rememberedOptions session = Some Map.empty"
    by (simp add: session_def)
  have fr: "fresh session = 12" by (simp add: session_def)
  have found: "rememberedFind session Map.empty ''p'' = Missing"
    by (simp add: rememberedFind_def session_def objects_def ownFind_def standard_def)
  have sel: "querySelectorAll_optiongroup ''p'' ?n = Inr [11]"
    by (simp add: querySelectorAll_optiongroup_def groupMembers_def name_start_char_def
          session_def page_def blank_def radio_def)
  have one: "getIdAndOptionFromElement session 11 = Inr (Some ''__proto__'', Str ''three'')"
    by (simp add: session_def page_def blank_def getIdAndOptionFromElement_def
          declaredType_def getAttribute_def getOptionIdFromElement_def dataset_def Let_def)
  have rd: "elems ?n = elems session" "otherNumbers (env ?n) = otherNumbers (env session)"
    by simp_all
  have member: "getIdAndOptionFromElement ?n 11 = Inr (Some ''__proto__'', Str ''three'')"
    unfolding extract_reads_elements [OF rd] by (rule one)
  have own: "heap ?n 12 ''__proto__'' = None"
    using newObject_frame(6) [of session] unfolding fr by simp
  have inherited: "lookup ?n (Ref 12) ''__proto__'' = ProtoAccessor"
    by (simp add: lookup_def ownFind_def newObject_def session_def
          objects_def standard_def ancestors_def)
  have set: "setProp (Ref 12) ''__proto__'' (Str ''three'') ?n = Inr ?n"
    using own inherited by simp
  have scan: "scanGroup (Ref 12) [11] ?n = Inr ?n"
    using member set by (simp add: idKey_def del: setProp.simps)
  have res: "getIdAndOptionsFromElement 11 True session = Inr ((Some ''p'', Ref 12), ?n)"
    using grp ro found sel scan fr by (simp add: getIdAndOptionsFromElement_def)
  have hp: "heap ?n 12 = Map.empty"
    using newObject_frame(6) [of session] unfolding fr .
  from one res hp show ?thesis by blast
qed

text \<open>
  Claim C10, as amended. Let \<open>g\<close> be a CSS identifier and let no member of the group
  write the key \<^verbatim>\<open>__proto__\<close>. When the cache holds an entry for \<open>g\<close>, a group extraction
  that returns hands back that very entry and leaves the cache table as it was, so the
  cache entry for \<open>g\<close> is the returned aggregate; when the entry is an object, its
  contents after the call are its contents before, overwritten with the live values of
  the members.
\<close>

theorem cache_updated_in_place:
  assumes grp: "dataset (elems s el) ''optiongroup'' = Some g"
      and ident: "css_ident g"
      and keys: "''__proto__'' \<notin> set (memberKeys s (groupMembers g s))"
      and ro: "rememberedOptions s = Some m"
      and entry: "m g = Some c"
      and res: "getIdAndOptionsFromElement el True s = Inr ((i, v), s')"
  shows "v = c \<and> rememberedOptions s' = Some m \<and>
         (\<forall>a. c = Ref a \<longrightarrow>
            aggregate_spec s (groupMembers g s) (heap s a) = Inr (heap s' a) \<and>
            (\<forall>w \<in> set (groupMembers g s).
                \<exists>j x. getIdAndOptionFromElement s w = Inr (j, x) \<and>
                      idKey j \<in> dom (heap s' a)))"
proof -
  from res have vc: "v = c"
    unfolding extract_cached_unfold [OF grp ro entry ident] by (simp split: sum.splits)
  from extract_frame [OF res] ro have ro': "rememberedOptions s' = Some m" by simp
  have "\<forall>a. c = Ref a \<longrightarrow>
            aggregate_spec s (groupMembers g s) (heap s a) = Inr (heap s' a) \<and>
            (\<forall>w \<in> set (groupMembers g s).
                \<exists>j x. getIdAndOptionFromElement s w = Inr (j, x) \<and>
                      idKey j \<in> dom (heap s' a))"
  proof (intro allI impI)
    fix a
    assume c: "c = Ref a"
    with entry have mg: "m g = Some (Ref a)" by simp
    from res obtain agg'
      where spec: "aggregate_spec s (groupMembers g s) (heap s a) = Inr agg'"
        and h: "heap s' a = agg'"
      unfolding extract_group_cached [OF grp ro mg ident keys]
      by (cases "aggregate_spec s (groupMembers g s) (heap s a)") auto
    show "aggregate_spec s (groupMembers g s) (heap s a) = Inr (heap s' a) \<and>
            (\<forall>w \<in> set (groupMembers g s).
                \<exists>j x. getIdAndOptionFromElement s w = Inr (j, x) \<and>
                      idKey j \<in> dom (heap s' a))"
      unfolding h using spec aggregate_spec_members [OF spec] by blast
  qed
  with vc ro' show ?thesis by blast
qed

theorem cache_updated_in_place_witness:
  "getIdAndOptionsFromElement 1 True remembered =
     Inr ((Some ''qrCodeSize'', Ref 1), rescanned) \<and>
   rememberedOptions rescanned = Some [''qrCodeSize'' \<mapsto> Ref 1] \<and>
   aggregate_spec remembered (groupMembers ''qrCodeSize'' remembered) (heap remembered 1) =
     Inr (heap rescanned 1) \<and>
   heap rescanned 1 ''size'' = Some (Num 150)"
proof -
  have res: "getIdAndOptionsFromElement 1 True remembered =
               Inr ((Some ''qrCodeSize'', Ref 1), rescanned)"
    by (rule remembered_extraction) simp
  have mg: "[''qrCodeSize'' \<mapsto> Ref 1] ''qrCodeSize'' = Some (Ref 1)" by simp
  have after: "heap rescanned 1 ''size'' = Some (Num 150)"
    by (simp add: rescanned_def)
  from cache_updated_in_place [OF remembered_facts(5) qrCodeSize_ident remembered_keys
         remembered_facts(3) mg res] res after
  show ?thesis by blast
qed

text \<open>
  The claim as stated covers every group id. The text field 9 of the sample page, named
  \<open>first\<close>, declares the group \<open>q i\<close>, for which the cache holds an entry (object 3).
  Spliced into the selector, the group id reads as the identifier \<open>q\<close> with the flag
  \<^verbatim>\<open>i\<close>, so the scan visits the members of the group \<open>q\<close>: the entry comes back with the
  value of the field \<open>second\<close> of that other group written into it, and without the
  live value of the field \<open>first\<close>.
\<close>

theorem flagged_selector_counterexample:
  "dataset (elems flagCached 9) ''optiongroup'' = Some ''q i'' \<and>
   rememberedOptions flagCached = Some [''q i'' \<mapsto> Ref 3] \<and>
   groupMembers ''q i'' flagCached = [9] \<and>
   getIdAndOptionFromElement flagCached 9 = Inr (Some ''first'', Str ''one'') \<and>
   getIdAndOptionsFromElement 9 True flagCached =
     Inr ((Some ''q i'', Ref 3), writeOwn 3 ''second'' (Str ''two'') flagCached) \<and>
   heap (writeOwn 3 ''second'' (Str ''two'') flagCached) 3 = [''second'' \<mapsto> Str ''two'']"
proof -
  have grp: "dataset (elems flagCached 9) ''optiongroup'' = Some ''q i''"
    by (simp add: flagCached_def session_def page_def blank_def dataset_def)
  have ro: "rememberedOptions flagCached = Some [''q i'' \<mapsto> Ref 3]"
    by (simp add: flagCached_def)
  have found: "rememberedFind flagCached [''q i'' \<mapsto> Ref 3] ''q i'' = Data (Ref 3)"
    by (simp add: rememberedFind_def)
  have mem: "groupMembers ''q i'' flagCached = [9]"
    by (simp add: groupMembers_def flagCached_def session_def page_def blank_def radio_def)
  have flag: "flaggedIdent ''q i'' = Some ''q''"
    by (simp add: flaggedIdent_def css_space_def name_start_char_def Let_def)
  have anycase: "groupMembersAnyCase ''q'' flagCached = [10]"
    by (simp add: groupMembersAnyCase_def lower_def flagCached_def session_def page_def
          blank_def radio_def)
  have sel: "querySelectorAll_optiongroup ''q i'' flagCached = Inr [10]"
    using flag anycase
    by (simp add: querySelectorAll_optiongroup_def name_start_char_def name_char_def
          is_digit_def)
  have first: "getIdAndOptionFromElement flagCached 9 = Inr (Some ''first'', Str ''one'')"
    by (simp add: flagCached_def session_def page_def blank_def getIdAndOptionFromElement_def
          declaredType_def getAttribute_def getOptionIdFromElement_def dataset_def Let_def)
  have second: "getIdAndOptionFromElement flagCached 10 = Inr (Some ''second'', Str ''two'')"
    by (simp add: flagCached_def session_def page_def blank_def getIdAndOptionFromElement_def
          declaredType_def getAttribute_def getOptionIdFromElement_def dataset_def Let_def)
  have key: "''second'' \<noteq> ''__proto__''" by simp
  have scan: "scanGroup (Ref 3) [10] flagCached =
                Inr (writeOwn 3 ''second'' (Str ''two'') flagCached)"
    using second by (simp add: idKey_def setProp_own [OF key] del: setProp.simps)
  have res: "getIdAndOptionsFromElement 9 True flagCached =
     Inr ((Some ''q i'', Ref 3), writeOwn 3 ''second'' (Str ''two'') flagCached)"
    using grp ro found sel scan by (simp add: getIdAndOptionsFromElement_def)
  have hp: "heap (writeOwn 3 ''second'' (Str ''two'') flagCached) 3 =
              [''second'' \<mapsto> Str ''two'']"
    by (simp add: flagCached_def session_def objects_def)
  from grp ro mem first res hp show ?thesis by blast
qed

text \<open>
  Why no member may write the key \<^verbatim>\<open>__proto__\<close>: with an entry (object 3) cached for
  the group \<open>p\<close>, the assignment of the value of the text field 11 runs the setter the
  entry inherits, which ignores a string, and the entry stays as it was.
\<close>

lemma proto_member_leaves_entry:
  "rememberedOptions protoCached = Some [''p'' \<mapsto> Ref 3] \<and>
   getIdAndOptionFromElement protoCached 11 = Inr (Some ''__proto__'', Str ''three'') \<and>
   getIdAndOptionsFromElement 11 True protoCached = Inr ((Some ''p'', Ref 3), protoCached) \<and>
   heap protoCached 3 = Map.empty"
proof -
  have grp: "dataset (elems protoCached 11) ''optiongroup'' = Some ''p''"
    by (simp add: protoCached_def session_def page_def blank_def dataset_def)
  have ro: "rememberedOptions protoCached = Some [''p'' \<mapsto> Ref 3]"
    by (simp add: protoCached_def)
  have found: "rememberedFind protoCached [''p'' \<mapsto> Ref 3] ''p'' = Data (Ref 3)"
    by (simp add: rememberedFind_def)
  have sel: "querySelectorAll_optiongroup ''p'' protoCached = Inr [11]"
    by (simp add: querySelectorAll_optiongroup_def groupMembers_def name_start_char_def
          protoCached_def session_def page_def blank_def radio_def)
  have member: "getIdAndOptionFromElement protoCached 11 =
                  Inr (Some ''__proto__'', Str ''three'')"
    by (simp add: protoCached_def session_def page_def blank_def
          getIdAndOptionFromElement_def declaredType_def getAttribute_def
          getOptionIdFromElement_def dataset_def Let_def)
  have hp: "heap protoCached 3 = Map.empty"
    by (simp add: protoCached_def session_def objects_def)
  have inherited: "lookup protoCached (Ref 3) ''__proto__'' = ProtoAccessor"
    by (simp add: lookup_def ownFind_def protoCached_def session_def objects_def
          standard_def ancestors_def)
  have set: "setProp (Ref 3) ''__proto__'' (Str ''three'') protoCached = Inr protoCached"
    using hp inherited by simp
  have scan: "scanGroup (Ref 3) [11] protoCached = Inr protoCached"
    using member set by (simp add: idKey_def del: setProp.simps)
  have res: "getIdAndOptionsFromElement 11 True protoCached =
               Inr ((Some ''p'', Ref 3), protoCached)"
    using grp ro found sel scan by (simp add: getIdAndOptionsFromElement_def)
  from ro member res hp show ?thesis by blast
qed

subsection \<open>The life of a cache entry\<close>

text \<open>
  Claim C6, as amended. A reset leaves every group absent from the cache. Registering
  a provider does not touch the cache, and neither does any extraction that returns:
  extraction creates no entry and removes none. An apply that returns either leaves
  the cache table as it was or adds the entry of its own group, absent until then,
  namely what the loaded value map holds under the group id; it does add that entry
  when it finds the value of a grouped option in the loaded map, the group is absent
  from the cache and the group id is not \<^verbatim>\<open>__proto__\<close>. Consequently, after a reset, a
  group extraction of a group whose members have not been applied again seeds from the
  empty map: when the group id is a CSS identifier that names no property of
  \<^verbatim>\<open>Object.prototype\<close>, and no member writes the key \<^verbatim>\<open>__proto__\<close>, it returns a new
  object whose keys are exactly the keys written by the live members.
\<close>

theorem cache_lifecycle:
  "rememberedOptions (resetRememberedOptions s) = Some Map.empty \<and>
   rememberedOptions (setDefaultOptionProvider p s) = rememberedOptions s \<and>
   (getIdAndOptionsFromElement el u s = Inr (r, extracted) \<longrightarrow>
      rememberedOptions extracted = rememberedOptions s) \<and>
   (applyOptionToElement option og w ov s = Inr applied \<longrightarrow>
      rememberedOptions applied = rememberedOptions s \<or>
      (\<exists>g m c. og = Some g \<and> rememberedOptions s = Some m \<and> m g = None \<and>
               getProp s ov g = Inr c \<and> rememberedOptions applied = Some (m(g \<mapsto> c)))) \<and>
   (valuePresent option (Some grp) ov s = Inr True \<and>
    rememberedOptions s = Some cache \<and> cache grp = None \<and> grp \<noteq> ''__proto__'' \<and>
    applyOptionToElement option (Some grp) w ov s = Inr applied \<longrightarrow>
      (\<exists>c. getProp s ov grp = Inr c \<and> rememberedOptions applied = Some (cache(grp \<mapsto> c)))) \<and>
   (dataset (elems s el) ''optiongroup'' = Some g \<and> css_ident g \<and>
    findIn s [objectPrototype (env s)] g = Missing \<and>
    ''__proto__'' \<notin> set (memberKeys s (groupMembers g s)) \<and>
    getIdAndOptionsFromElement el True (resetRememberedOptions s) = Inr ((i, v), reread) \<longrightarrow>
      v = Ref (fresh s) \<and>
      aggregate_spec s (groupMembers g s) Map.empty = Inr (heap reread (fresh s)) \<and>
      dom (heap reread (fresh s)) = set (memberKeys s (groupMembers g s)))"
proof (intro conjI impI)
  show "rememberedOptions (resetRememberedOptions s) = Some Map.empty"
    by (simp add: resetRememberedOptions_def)
  show "rememberedOptions (setDefaultOptionProvider p s) = rememberedOptions s"
    by (simp add: setDefaultOptionProvider_def)
next
  assume "getIdAndOptionsFromElement el u s = Inr (r, extracted)"
  from extract_frame [OF this] show "rememberedOptions extracted = rememberedOptions s" by simp
next
  assume "applyOptionToElement option og w ov s = Inr applied"
  then show "rememberedOptions applied = rememberedOptions s \<or>
      (\<exists>g m c. og = Some g \<and> rememberedOptions s = Some m \<and> m g = None \<and>
               getProp s ov g = Inr c \<and> rememberedOptions applied = Some (m(g \<mapsto> c)))"
    by (rule apply_cache)
next
  assume a: "valuePresent option (Some grp) ov s = Inr True \<and>
    rememberedOptions s = Some cache \<and> cache grp = None \<and> grp \<noteq> ''__proto__'' \<and>
    applyOptionToElement option (Some grp) w ov s = Inr applied"
  then show "\<exists>c. getProp s ov grp = Inr c \<and> rememberedOptions applied = Some (cache(grp \<mapsto> c))"
    by (rule apply_caches_group)
next
  let ?r = "resetRememberedOptions s"
  assume a: "dataset (elems s el) ''optiongroup'' = Some g \<and> css_ident g \<and>
    findIn s [objectPrototype (env s)] g = Missing \<and>
    ''__proto__'' \<notin> set (memberKeys s (groupMembers g s)) \<and>
    getIdAndOptionsFromElement el True ?r = Inr ((i, v), reread)"
  have el: "elems ?r = elems s" and fr: "fresh ?r = fresh s"
    and nm: "otherNumbers (env ?r) = otherNumbers (env s)"
    and ro: "rememberedOptions ?r = Some Map.empty"
    and ch: "rememberedChain ?r = [objectPrototype (env s)]"
    and hp: "heap ?r = heap s" and op: "objectPrototype (env ?r) = objectPrototype (env s)"
    and gm: "groupMembers g ?r = groupMembers g s"
    by (simp_all add: resetRememberedOptions_def groupMembers_def)
  from a el have grp: "dataset (elems ?r el) ''optiongroup'' = Some g" by simp
  from a have css: "css_ident g" by simp
  from a have own: "findIn ?r (rememberedChain ?r) g = Missing"
    unfolding ch findIn_reads [OF hp op] by simp
  from a have keys: "''__proto__'' \<notin> set (memberKeys ?r (groupMembers g ?r))"
    unfolding gm memberKeys_reads_elements [OF el nm] by simp
  from a have res: "getIdAndOptionsFromElement el True ?r = Inr ((i, v), reread)" by simp
  have none: "Map.empty g = None" by simp
  from res obtain agg'
    where spec: "aggregate_spec ?r (groupMembers g s) Map.empty = Inr agg'"
      and v: "v = Ref (fresh s)" and h: "heap reread (fresh s) = agg'"
    unfolding extract_group_absent [OF grp ro none css own keys] gm fr hp
    by (cases "aggregate_spec ?r (groupMembers g s) Map.empty") auto
  from spec have spec': "aggregate_spec s (groupMembers g s) Map.empty = Inr agg'"
    unfolding aggregate_spec_reads_elements [OF el nm] .
  show "v = Ref (fresh s)" by (rule v)
  show "aggregate_spec s (groupMembers g s) Map.empty = Inr (heap reread (fresh s))"
    unfolding h by (rule spec')
  show "dom (heap reread (fresh s)) = set (memberKeys s (groupMembers g s))"
    unfolding h by (rule aggregate_spec_dom [OF spec'])
qed

theorem cache_lifecycle_witness:
  "rememberedOptions session = Some Map.empty \<and>
   applyOptionToElement ''size'' (Some ''qrCodeSize'') 4 (Ref 0) session = Inr sizeApplied \<and>
   rememberedOptions sizeApplied = Some [''qrCodeSize'' \<mapsto> Ref 1] \<and>
   rememberedOptions (resetRememberedOptions rescanned) = Some Map.empty \<and>
   rememberedOptions rescanned = rememberedOptions remembered \<and>
   getIdAndOptionsFromElement 4 True (resetRememberedOptions rescanned) =
     Inr ((Some ''qrCodeSize'', Ref 12), rescannedAfterReset) \<and>
   dom (heap rescannedAfterReset 12) = set [''sizeType'', ''size''] \<and>
   heap rescanned 1 ''margin'' = Some (Num 4) \<and>
   heap rescannedAfterReset 12 ''margin'' = None"
proof -
  let ?r = "resetRememberedOptions rescanned"
  have el: "elems ?r = elems picked" and doc: "document ?r = document picked"
    and nm: "otherNumbers (env ?r) = otherNumbers (env picked)"
    and ro: "rememberedOptions ?r = Some Map.empty" and fr: "fresh ?r = 12"
    and ch: "rememberedChain ?r = [5]"
    and hp: "heap ?r = heap rescanned"
    and grp: "dataset (elems ?r 4) ''optiongroup'' = Some ''qrCodeSize''"
    using rescanned_facts by (simp_all add: resetRememberedOptions_def)
  have none: "Map.empty ''qrCodeSize'' = None" by simp
  have h5: "heap ?r 5 = objects 5" unfolding hp by (rule rescanned_facts(7))
  have own: "findIn ?r (rememberedChain ?r) ''qrCodeSize'' = Missing"
    unfolding ch by (rule qrCodeSize_not_inherited [OF h5])
  have keys: "''__proto__'' \<notin> set (memberKeys ?r (groupMembers ''qrCodeSize'' ?r))"
    unfolding picked_members [OF el doc] picked_keys [OF el nm] by simp
  have res: "getIdAndOptionsFromElement 4 True ?r =
               Inr ((Some ''qrCodeSize'', Ref 12), rescannedAfterReset)"
    unfolding extract_group_absent [OF grp ro none qrCodeSize_ident own keys]
      picked_members [OF el doc] picked_aggregate [OF el nm] fr hp
    by (simp add: rescannedAfterReset_def newObject_def resetRememberedOptions_def
          rescanned_facts(3))
  have old: "getIdAndOptionsFromElement 1 True remembered =
               Inr ((Some ''qrCodeSize'', Ref 1), rescanned)"
    by (rule remembered_extraction) simp
  have members: "set (memberKeys rescanned (groupMembers ''qrCodeSize'' rescanned)) =
                set [''sizeType'', ''size'']"
    unfolding picked_members [OF rescanned_facts(1,2)] picked_keys [OF rescanned_facts(1,5)] ..
  have clean: "''__proto__'' \<notin> set (memberKeys rescanned (groupMembers ''qrCodeSize'' rescanned))"
    unfolding members by simp
  have plain: "findIn rescanned [objectPrototype (env rescanned)] ''qrCodeSize'' = Missing"
    unfolding rescanned_facts(6) by (rule qrCodeSize_not_inherited [OF rescanned_facts(7)])
  have margin: "heap rescanned 1 ''margin'' = Some (Num 4)"
    by (simp add: rescanned_def remembered_def picked_def session_def objects_def)
  have gone: "heap rescannedAfterReset 12 ''margin'' = None"
    by (simp add: rescannedAfterReset_def)
  from cache_lifecycle [where s = rescanned and el = 4 and g = "''qrCodeSize''"
         and i = "Some ''qrCodeSize''" and v = "Ref 12" and reread = rescannedAfterReset]
       rescanned_facts(3,4) qrCodeSize_ident plain clean res
  have fresh_only: "dom (heap rescannedAfterReset 12) =
                      set (memberKeys rescanned (groupMembers ''qrCodeSize'' rescanned))"
    and cleared: "rememberedOptions ?r = Some Map.empty"
    by simp_all
  from cache_lifecycle [where s = remembered and el = 1 and u = True
         and r = "(Some ''qrCodeSize'', Ref 1)" and extracted = rescanned] old
  have kept: "rememberedOptions rescanned = rememberedOptions remembered"
    by blast
  have empty: "rememberedOptions session = Some Map.empty"
    by (simp add: session_def)
  have present: "valuePresent ''size'' (Some ''qrCodeSize'') (Ref 0) session = Inr True"
    by (simp add: valuePresent_def groupKey_def session_def objects_def ownFind_def)
  have none: "Map.empty ''qrCodeSize'' = None" by simp
  have name: "''qrCodeSize'' \<noteq> ''__proto__''" by simp
  have app: "applyOptionToElement ''size'' (Some ''qrCodeSize'') 4 (Ref 0) session = Inr sizeApplied"
    by (simp add: applyOptionToElement_def valuePresent_def storedValue_def rememberGroup_def
          groupKey_def sizeApplied_def session_def objects_def ownFind_def lookup_def
          standard_def ancestors_def)
  from cache_lifecycle [where s = session and option = "''size''" and grp = "''qrCodeSize''"
         and ov = "Ref 0" and w = 4 and cache = Map.empty and applied = sizeApplied]
       present empty none name app
  obtain c where "getProp session (Ref 0) ''qrCodeSize'' = Inr c"
    and "rememberedOptions sizeApplied = Some [''qrCodeSize'' \<mapsto> c]"
    by blast
  then have cached: "rememberedOptions sizeApplied = Some [''qrCodeSize'' \<mapsto> Ref 1]"
    by (simp add: session_def objects_def ownFind_def lookup_def standard_def ancestors_def)
  from empty app cached cleared kept res fresh_only [unfolded members] margin gone
  show ?thesis by blast
qed

text \<open>
  The claim as stated has an extraction create the entry of a group it touches first.
  On the sample page the cache is empty, a group extraction of \<open>qrCodeSize\<close> returns,
  and the cache is empty afterwards.
\<close>

theorem extraction_caches_nothing_counterexample:
  "rememberedOptions picked = Some Map.empty \<and>
   getIdAndOptionsFromElement 1 True picked = Inr ((Some ''qrCodeSize'', Ref 12), scanned) \<and>
   rememberedOptions scanned = Some Map.empty"
proof -
  have el: "elems picked = elems picked" and doc: "document picked = document picked"
    and nm: "otherNumbers (env picked) = otherNumbers (env picked)"
    by simp_all
  have none: "Map.empty ''qrCodeSize'' = None" by simp
  have own: "findIn picked (rememberedChain picked) ''qrCodeSize'' = Missing"
    unfolding picked_facts(4) by (rule qrCodeSize_not_inherited [OF picked_facts(5)])
  have keys: "''__proto__'' \<notin> set (memberKeys picked (groupMembers ''qrCodeSize'' picked))"
    unfolding picked_members [OF el doc] picked_keys [OF el nm] by simp
  have res: "getIdAndOptionsFromElement 1 True picked =
               Inr ((Some ''qrCodeSize'', Ref 12), scanned)"
    unfolding extract_group_absent [OF picked_facts(2) picked_facts(1) none qrCodeSize_ident
        own keys]
      picked_members [OF el doc] picked_aggregate [OF el nm] picked_facts(3)
    by (simp add: scanned_def newObject_def picked_facts(3))
  have "rememberedOptions scanned = Some Map.empty"
    by (simp add: scanned_def picked_facts(1))
  with picked_facts(1) res show ?thesis by blast
qed

text \<open>
  Why the group id must name no property of \<^verbatim>\<open>Object.prototype\<close>: for the group
  \<open>toString\<close> of the text field 8, the aggregate after a reset is not a new object but
  the inherited function (object 7), and what it holds besides the member's key has
  outlived the reset.
\<close>

lemma inherited_aggregate_outlives_reset:
  "getIdAndOptionsFromElement 8 True (resetRememberedOptions session) =
     Inr ((Some ''toString'', Ref 7),
          writeOwn 7 ''label'' (Str ''QR'') (resetRememberedOptions session)) \<and>
   memberKeys session (groupMembers ''toString'' session) = [''label''] \<and>
   dom (heap (writeOwn 7 ''label'' (Str ''QR'') (resetRememberedOptions session)) 7) =
     {''length'', ''name'', ''label''}"
proof -
  let ?r = "resetRememberedOptions session"
  have grp: "dataset (elems ?r 8) ''optiongroup'' = Some ''toString''"
    by (simp add: resetRememberedOptions_def session_def page_def blank_def dataset_def)
  have ro: "rememberedOptions ?r = Some Map.empty"
    by (simp add: resetRememberedOptions_def)
  have found: "rememberedFind ?r Map.empty ''toString'' = Data (Ref 7)"
    by (simp add: rememberedFind_def resetRememberedOptions_def session_def objects_def
          ownFind_def standard_def)
  have sel: "querySelectorAll_optiongroup ''toString'' ?r = Inr [8]"
    by (simp add: querySelectorAll_optiongroup_def groupMembers_def name_start_char_def
          name_char_def is_digit_def resetRememberedOptions_def session_def page_def
          blank_def radio_def)
  have mem: "groupMembers ''toString'' session = [8]"
    by (simp add: groupMembers_def session_def page_def blank_def radio_def)
  have one: "getIdAndOptionFromElement session 8 = Inr (Some ''label'', Str ''QR'')"
    by (simp add: session_def page_def blank_def getIdAndOptionFromElement_def
          declaredType_def getAttribute_def getOptionIdFromElement_def dataset_def Let_def)
  have rd: "elems ?r = elems session" "otherNumbers (env ?r) = otherNumbers (env session)"
    by (simp_all add: resetRememberedOptions_def)
  have member: "getIdAndOptionFromElement ?r 8 = Inr (Some ''label'', Str ''QR'')"
    unfolding extract_reads_elements [OF rd] by (rule one)
  have key: "''label'' \<noteq> ''__proto__''" by simp
  have scan: "scanGroup (Ref 7) [8] ?r = Inr (writeOwn 7 ''label'' (Str ''QR'') ?r)"
    using member by (simp add: idKey_def setProp_own [OF key] del: setProp.simps)
  have res: "getIdAndOptionsFromElement 8 True ?r =
     Inr ((Some ''toString'', Ref 7), writeOwn 7 ''label'' (Str ''QR'') ?r)"
    using grp ro found sel scan by (simp add: getIdAndOptionsFromElement_def)
  have keys: "memberKeys session (groupMembers ''toString'' session) = [''label'']"
    unfolding mem using one by (simp add: memberKeys_def idKey_def)
  have hp: "dom (heap (writeOwn 7 ''label'' (Str ''QR'') ?r) 7) =
              {''length'', ''name'', ''label''}"
    by (auto simp add: resetRememberedOptions_def session_def objects_def)
  from res keys hp show ?thesis by blast
qed

text \<open>
  Why the group id of an apply must not be \<^verbatim>\<open>__proto__\<close>: the value map of object 1
  has the key \<open>size\<close> and reads its prototype under that group id, and the assignment
  to the cache runs the inherited setter, which adds no entry.
\<close>

lemma proto_group_not_cached:
  "valuePresent ''size'' (Some ''__proto__'') (Ref 1) session = Inr True \<and>
   rememberedOptions session = Some Map.empty \<and>
   applyOptionToElement ''size'' (Some ''__proto__'') 4 (Ref 1) session =
     Inr (writeOptionValue 4 Undefined session) \<and>
   rememberedOptions (writeOptionValue 4 Undefined session) = Some Map.empty"
proof -
  have present: "valuePresent ''size'' (Some ''__proto__'') (Ref 1) session = Inr True"
    by (simp add: valuePresent_def session_def objects_def ownFind_def)
  have ro: "rememberedOptions session = Some Map.empty"
    by (simp add: session_def)
  have grp: "getProp session (Ref 1) ''__proto__'' = Inr (Ref 5)"
    by (simp add: lookup_def nearest_def session_def objects_def ownFind_def standard_def
          ancestors_def)
  have opt: "getProp session (Ref 5) ''size'' = Inr Undefined"
    by (simp add: lookup_def session_def objects_def ownFind_def standard_def ancestors_def)
  have rem: "rememberGroup ''__proto__'' (Ref 5) session = Inr session"
    by (simp add: rememberGroup_def session_def objects_def ownFind_def standard_def
          ancestors_def)
  have app: "applyOptionToElement ''size'' (Some ''__proto__'') 4 (Ref 1) session =
     Inr (writeOptionValue 4 Undefined session)"
    using present grp opt rem
    by (simp add: applyOptionToElement_def storedValue_def del: getProp.simps)
  from present ro app show ?thesis by simp
qed

end
